theory Spec2Isabelle
  imports Complex_Main "HOL-Library.Word"
begin

section \<open>Apple Music now-playing server and display client\<close>

text \<open>
  A shallow embedding of \<^verbatim>\<open>server/index.ts\<close> (class \<^verbatim>\<open>AppleMusicNowPlaying\<close> and the HTTP
  handler) and of the progress logic of \<^verbatim>\<open>src/App.tsx\<close>.

  \<^item> JavaScript numbers are modelled as exact reals; \<^verbatim>\<open>NaN\<close> appears only as the value
    \<open>None\<close> of the two number parsers, where the source replaces it by 0 at once.
  \<^item> Strings are byte strings. An optional field (\<^verbatim>\<open>undefined\<close>) is \<open>None\<close>.
  \<^item> Everything outside the process (the \<^verbatim>\<open>osascript\<close> shell calls, \<^verbatim>\<open>fetch\<close>, the file
    system, the clock) is an operation of an environment record acting on an abstract
    world \<open>'w\<close>; an operation that can throw returns \<open>Thrown\<close>.
  \<^item> Library functions of Node (\<^verbatim>\<open>encodeURIComponent\<close>, base64 encoding, \<^verbatim>\<open>path.join\<close>,
    \<^verbatim>\<open>parseInt\<close>, \<^verbatim>\<open>parseFloat\<close>, \<^verbatim>\<open>url.parse\<close>) are pure fields of the same record.
  \<^item> An \<^verbatim>\<open>async\<close> method is run to completion: one call is one atomic step, so the
    interleaving of two polls at an \<^verbatim>\<open>await\<close> is outside the model.
  \<^item> Diagnostic \<^verbatim>\<open>console.log\<close> lines are left out. The trace keeps the payload that
    \<^verbatim>\<open>sendSongToDeskThing\<close> emits, and two kinds of bookkeeping entries that the source
    does not print: \<open>Resolving\<close> when \<^verbatim>\<open>getAlbumArt\<close> is entered, and \<open>Tried t r\<close> when the
    strategy \<open>t\<close> called by \<^verbatim>\<open>getAlbumArt\<close> has returned \<open>r\<close>.
\<close>

subsection \<open>Data\<close>

type_synonym bytes = "8 word list"

text \<open>\<^verbatim>\<open>interface SongData\<close>. The cast \<^verbatim>\<open>playerState as 'playing' | 'paused'\<close> is not checked
  at run time, so \<open>state\<close> is whatever string the player reported.\<close>

record SongData =
  title :: string
  artist :: string
  album :: string
  state :: string
  albumArt :: "string option"
  duration :: "real option"
  position :: "real option"
  timestamp :: "int option"

text \<open>The object built in \<^verbatim>\<open>sendSongToDeskThing\<close>: the song's fields, \<^verbatim>\<open>timestamp\<close> and
  \<^verbatim>\<open>version\<close>.\<close>

record Payload = SongData +
  version :: nat

text \<open>\<^verbatim>\<open>interface iTunesResult\<close>, \<^verbatim>\<open>iTunesResponse\<close>, \<^verbatim>\<open>LastFmImage\<close>, \<^verbatim>\<open>LastFmAlbum\<close>,
  \<^verbatim>\<open>LastFmResponse\<close>, with the fields the code guards before use made optional.
  \<open>img_size\<close> is \<^verbatim>\<open>size\<close>, \<open>img_text\<close> is \<^verbatim>\<open>'#text'\<close>, \<open>lf_album\<close> is \<^verbatim>\<open>album\<close>.\<close>

record iTunesResult =
  artistName :: string
  collectionName :: string
  artworkUrl100 :: "string option"

record iTunesResponse =
  results :: "iTunesResult list option"
  resultCount :: nat

record LastFmImage =
  img_size :: string
  img_text :: string

record LastFmAlbum =
  name :: string
  lf_artist :: string
  image :: "LastFmImage list option"

record LastFmResponse =
  lf_album :: "LastFmAlbum option"

text \<open>The picture entries of \<^verbatim>\<open>metadata.common.picture\<close> (package music-metadata).\<close>

record Picture =
  format :: string
  data :: bytes

record Metadata =
  picture :: "Picture list option"

subsection \<open>Effects: outcomes, state, exceptions\<close>

datatype 'a outcome = Returned 'a | Thrown

type_synonym ('a, 's) eff = "'s \<Rightarrow> 'a outcome \<times> 's"

definition ret :: "'a \<Rightarrow> ('a, 's) eff" where
  "ret a s = (Returned a, s)"

definition settle :: "'a outcome \<Rightarrow> ('a, 's) eff" where
  "settle r s = (r, s)"

text \<open>Sequencing: a throw skips the rest; the state reached so far is kept.\<close>

definition andThen :: "('a, 's) eff \<Rightarrow> ('a \<Rightarrow> ('b, 's) eff) \<Rightarrow> ('b, 's) eff" where
  "andThen m f s = (case m s of (Returned a, s') \<Rightarrow> f a s' | (Thrown, s') \<Rightarrow> (Thrown, s'))"

text \<open>\<^verbatim>\<open>try { m } catch { h }\<close>.\<close>

definition tryCatch :: "('a, 's) eff \<Rightarrow> ('a, 's) eff \<Rightarrow> ('a, 's) eff" where
  "tryCatch m h s = (case m s of (Returned a, s') \<Rightarrow> (Returned a, s') | (Thrown, s') \<Rightarrow> h s')"

text \<open>What a JSON body decodes to. The casts \<^verbatim>\<open>as iTunesResponse\<close> and
  \<^verbatim>\<open>as LastFmResponse\<close> are unchecked: an object of the other shape simply lacks the
  field that is read.\<close>

datatype api_json = ITunesJson iTunesResponse | LastFmJson LastFmResponse

definition as_iTunesResponse :: "api_json \<Rightarrow> iTunesResponse" where
  "as_iTunesResponse j =
     (case j of ITunesJson d \<Rightarrow> d | LastFmJson _ \<Rightarrow> \<lparr>results = None, resultCount = 0\<rparr>)"

definition as_LastFmResponse :: "api_json \<Rightarrow> LastFmResponse" where
  "as_LastFmResponse j =
     (case j of LastFmJson d \<Rightarrow> d | ITunesJson _ \<Rightarrow> \<lparr>lf_album = None\<rparr>)"

text \<open>A \<^verbatim>\<open>Response\<close> of \<^verbatim>\<open>fetch\<close>: \<^verbatim>\<open>ok\<close>, and what \<^verbatim>\<open>await r.json()\<close> and
  \<^verbatim>\<open>await r.arrayBuffer()\<close> give (each may reject).\<close>

record response =
  ok :: bool
  json :: "api_json outcome"
  arrayBuffer :: "bytes outcome"

text \<open>The eight AppleScript programs handed to \<^verbatim>\<open>osascript\<close>, in the order of the methods
  \<^verbatim>\<open>getPlayerState\<close>, \<^verbatim>\<open>getTrackTitle\<close>, \<^verbatim>\<open>getTrackArtist\<close>, \<^verbatim>\<open>getTrackAlbum\<close>,
  \<^verbatim>\<open>getAppleScriptArtworkBase64\<close>, \<^verbatim>\<open>getMetadataArtwork\<close>, \<^verbatim>\<open>getSongDuration\<close>,
  \<^verbatim>\<open>getSongPosition\<close>.\<close>

datatype script =
  PlayerStateScript | TrackNameScript | TrackArtistScript | TrackAlbumScript
  | ArtworkTempFileScript | TrackLocationScript | TrackDurationScript | PlayerPositionScript

record 'w env =
  execSync :: "script \<Rightarrow> 'w \<Rightarrow> string outcome \<times> 'w"
  fetch :: "string \<Rightarrow> 'w \<Rightarrow> response outcome \<times> 'w"
  existsSync :: "string \<Rightarrow> 'w \<Rightarrow> bool \<times> 'w"
  readFileSync :: "string \<Rightarrow> 'w \<Rightarrow> bytes outcome \<times> 'w"
  readdirSync :: "string \<Rightarrow> 'w \<Rightarrow> string list outcome \<times> 'w"
  statSyncMtime :: "string \<Rightarrow> 'w \<Rightarrow> int outcome \<times> 'w"
  parseFile :: "string \<Rightarrow> 'w \<Rightarrow> Metadata outcome \<times> 'w"
  dateNow :: "'w \<Rightarrow> int \<times> 'w"
  envHOME :: "string option"
  envLASTFM_API_KEY :: "string option"
  encodeURIComponent :: "string \<Rightarrow> string"
  toBase64 :: "bytes \<Rightarrow> string"
  pathJoin :: "string \<Rightarrow> string \<Rightarrow> string"
  parseInt :: "string \<Rightarrow> real option"
  parseFloat :: "string \<Rightarrow> real option"
  urlPathname :: "string \<Rightarrow> string option"

datatype tier = AppleScriptTier | ItunesTier | LastfmTier | MetadataTier | CachedTier

datatype event = Resolving | Tried tier string | Published Payload

record 'w sys =
  world :: 'w
  trace :: "event list"

definition onWorld :: "('w \<Rightarrow> 'a outcome \<times> 'w) \<Rightarrow> ('a, 'w sys) eff" where
  "onWorld f s = (case f (world s) of (r, w') \<Rightarrow> (r, s\<lparr>world := w'\<rparr>))"

definition onWorldTotal :: "('w \<Rightarrow> 'a \<times> 'w) \<Rightarrow> ('a, 'w sys) eff" where
  "onWorldTotal f s = (case f (world s) of (a, w') \<Rightarrow> (Returned a, s\<lparr>world := w'\<rparr>))"

definition emit :: "event \<Rightarrow> (unit, 'w sys) eff" where
  "emit e s = (Returned (), s\<lparr>trace := trace s @ [e]\<rparr>)"

subsection \<open>String helpers of the JavaScript library\<close>

text \<open>\<^verbatim>\<open>String.prototype.trim\<close> on the ASCII white space and line terminators.\<close>

definition isWhiteSpace :: "char \<Rightarrow> bool" where
  "isWhiteSpace c = (c \<in> set [CHR '' '', CHR 0x09, CHR 0x0A, CHR 0x0B, CHR 0x0C, CHR 0x0D])"

definition trim :: "string \<Rightarrow> string" where
  "trim s = rev (dropWhile isWhiteSpace (rev (dropWhile isWhiteSpace s)))"

text \<open>\<^verbatim>\<open>s.replace(pat, rep)\<close> with a string pattern: the first occurrence only.\<close>

fun replaceFirst :: "string \<Rightarrow> string \<Rightarrow> string \<Rightarrow> string" where
  "replaceFirst pat rep [] = (if pat = [] then rep else [])"
| "replaceFirst pat rep (c # cs) =
     (if take (length pat) (c # cs) = pat then rep @ drop (length pat) (c # cs)
      else c # replaceFirst pat rep cs)"

text \<open>\<^verbatim>\<open>xs.filter(Boolean)\<close> on an array of strings and \<^verbatim>\<open>null\<close>.\<close>

fun filterBoolean :: "string option list \<Rightarrow> string list" where
  "filterBoolean [] = []"
| "filterBoolean (None # xs) = filterBoolean xs"
| "filterBoolean (Some x # xs) = (if x = [] then filterBoolean xs else x # filterBoolean xs)"

text \<open>\<^verbatim>\<open>x || 0\<close> on an optional number.\<close>

definition orZero :: "real option \<Rightarrow> real" where
  "orZero x = (case x of None \<Rightarrow> 0 | Some v \<Rightarrow> v)"

definition dataUri :: "string \<Rightarrow> string \<Rightarrow> string" where
  "dataUri mime base64 = ''data:'' @ mime @ '';base64,'' @ base64"

subsection \<open>Shell queries\<close>

definition getPlayerState :: "'w env \<Rightarrow> (string, 'w sys) eff" where
  "getPlayerState e =
     tryCatch (andThen (onWorld (execSync e PlayerStateScript)) (\<lambda>out. ret (trim out)))
              (ret ''stopped'')"

definition getTrackTitle :: "'w env \<Rightarrow> (string, 'w sys) eff" where
  "getTrackTitle e =
     tryCatch (andThen (onWorld (execSync e TrackNameScript)) (\<lambda>out. ret (trim out)))
              (ret [])"

definition getTrackArtist :: "'w env \<Rightarrow> (string, 'w sys) eff" where
  "getTrackArtist e =
     tryCatch (andThen (onWorld (execSync e TrackArtistScript)) (\<lambda>out. ret (trim out)))
              (ret [])"

definition getTrackAlbum :: "'w env \<Rightarrow> (string, 'w sys) eff" where
  "getTrackAlbum e =
     tryCatch (andThen (onWorld (execSync e TrackAlbumScript)) (\<lambda>out. ret (trim out)))
              (ret [])"

definition getSongDuration :: "'w env \<Rightarrow> (real, 'w sys) eff" where
  "getSongDuration e =
     tryCatch (andThen (onWorld (execSync e TrackDurationScript))
                 (\<lambda>out. let result = trim out in ret (orZero (parseInt e result))))
              (ret 0)"

definition getSongPosition :: "'w env \<Rightarrow> (real, 'w sys) eff" where
  "getSongPosition e =
     tryCatch (andThen (onWorld (execSync e PlayerPositionScript))
                 (\<lambda>out. let result = trim out in ret (orZero (parseFloat e result))))
              (ret 0)"

subsection \<open>The five artwork strategies\<close>

definition fetchAndConvertImage :: "'w env \<Rightarrow> string \<Rightarrow> (string, 'w sys) eff" where
  "fetchAndConvertImage e imageUrl =
     tryCatch
       (andThen (onWorld (fetch e imageUrl)) (\<lambda>imageResponse.
          if ok imageResponse then
            andThen (settle (arrayBuffer imageResponse)) (\<lambda>imageBuffer.
              let base64 = toBase64 e imageBuffer
              in ret (''data:image/jpeg;base64,'' @ base64))
          else ret []))
       (ret [])"

definition getAppleScriptArtworkBase64 :: "'w env \<Rightarrow> (string, 'w sys) eff" where
  "getAppleScriptArtworkBase64 e =
     tryCatch
       (andThen (onWorld (execSync e ArtworkTempFileScript)) (\<lambda>out.
          let result = trim out in
          if result \<noteq> [] then
            andThen (onWorldTotal (existsSync e result)) (\<lambda>found.
              if found then
                andThen (onWorld (readFileSync e result)) (\<lambda>imageData.
                  let base64 = toBase64 e imageData
                  in ret (''data:image/jpeg;base64,'' @ base64))
              else ret [])
          else ret []))
       (ret [])"

text \<open>The block \<^verbatim>\<open>if (response.ok) { ... }\<close> of \<^verbatim>\<open>getItunesArtwork\<close>, which the source
  writes out twice (in the loop and in the artist fallback): \<open>Some\<close> is the value of its
  \<^verbatim>\<open>return\<close>, \<open>None\<close> means that control left the block at its end.\<close>

definition itunesArtworkOf :: "'w env \<Rightarrow> response \<Rightarrow> (string option, 'w sys) eff" where
  "itunesArtworkOf e rsp =
     (if ok rsp then
        andThen (settle (json rsp)) (\<lambda>j.
          let jsonData = as_iTunesResponse j in
          case results jsonData of
            Some (result # _) \<Rightarrow>
              (case map_option (replaceFirst ''100x100'' ''600x600'') (artworkUrl100 result) of
                 Some artworkUrl \<Rightarrow>
                   if artworkUrl \<noteq> [] then
                     andThen (fetchAndConvertImage e artworkUrl) (\<lambda>imageResult.
                       if imageResult \<noteq> [] then ret (Some imageResult) else ret None)
                   else ret None
               | None \<Rightarrow> ret None)
          | _ \<Rightarrow> ret None)
      else ret None)"

text \<open>\<^verbatim>\<open>for (const searchTerm of searchTerms) { ... }\<close>.\<close>

fun itunesSearch :: "'w env \<Rightarrow> string list \<Rightarrow> (string option, 'w sys) eff" where
  "itunesSearch e [] = ret None"
| "itunesSearch e (searchTerm # rest) =
     (let itunesUrl = ''https://itunes.apple.com/search?term='' @ encodeURIComponent e searchTerm
                        @ ''&entity=album&limit=1''
      in andThen (onWorld (fetch e itunesUrl)) (\<lambda>rsp.
           andThen (itunesArtworkOf e rsp) (\<lambda>r.
             case r of Some imageResult \<Rightarrow> ret (Some imageResult)
                     | None \<Rightarrow> itunesSearch e rest)))"

definition getItunesArtwork :: "'w env \<Rightarrow> (string, 'w sys) eff" where
  "getItunesArtwork e =
     tryCatch
       (andThen (getTrackTitle e) (\<lambda>title.
        andThen (getTrackArtist e) (\<lambda>artist.
        andThen (getTrackAlbum e) (\<lambda>album.
          if title = [] \<or> artist = [] then ret []
          else
            let searchTerms =
                  [artist @ '' '' @ (if album \<noteq> [] then album else title),
                   artist @ '' '' @ title,
                   title @ '' '' @ artist]
            in andThen (itunesSearch e searchTerms) (\<lambda>r.
                 case r of
                   Some imageResult \<Rightarrow> ret imageResult
                 | None \<Rightarrow>
                     let artistUrl = ''https://itunes.apple.com/search?term=''
                                       @ encodeURIComponent e artist @ ''&entity=album&limit=1''
                     in andThen (onWorld (fetch e artistUrl)) (\<lambda>artistResponse.
                          andThen (itunesArtworkOf e artistResponse) (\<lambda>r'.
                            case r' of Some imageResult \<Rightarrow> ret imageResult
                                     | None \<Rightarrow> ret [])))))))
       (ret [])"

text \<open>\<^verbatim>\<open>images.find(large) || images.find(medium) || images[images.length - 1]\<close>; an
  element of the array is an object and so truthy, and the index \<^verbatim>\<open>-1\<close> of an empty array
  reads \<^verbatim>\<open>undefined\<close>.\<close>

definition largeImage :: "LastFmImage list \<Rightarrow> LastFmImage option" where
  "largeImage images =
     (case find (\<lambda>img. img_size img = ''large'') images of
        Some img \<Rightarrow> Some img
      | None \<Rightarrow>
          (case find (\<lambda>img. img_size img = ''medium'') images of
             Some img \<Rightarrow> Some img
           | None \<Rightarrow> (if images = [] then None else Some (images ! (length images - 1)))))"

text \<open>The body of the loop of \<^verbatim>\<open>getLastfmArtwork\<close> after the \<^verbatim>\<open>fetch\<close>.\<close>

definition lastfmArtworkOf :: "'w env \<Rightarrow> response \<Rightarrow> (string option, 'w sys) eff" where
  "lastfmArtworkOf e rsp =
     (if ok rsp then
        andThen (settle (json rsp)) (\<lambda>j.
          let jsonData = as_LastFmResponse j in
          case lf_album jsonData of
            None \<Rightarrow> ret None
          | Some alb \<Rightarrow>
              (case image alb of
                 None \<Rightarrow> ret None
               | Some images \<Rightarrow>
                   if length images > 0 then
                     (case largeImage images of
                        None \<Rightarrow> ret None
                      | Some img \<Rightarrow>
                          if img_text img \<noteq> [] then
                            andThen (fetchAndConvertImage e (img_text img)) (\<lambda>imageResult.
                              if imageResult \<noteq> [] then ret (Some imageResult) else ret None)
                          else ret None)
                   else ret None))
      else ret None)"

fun lastfmSearch :: "'w env \<Rightarrow> string \<Rightarrow> string list \<Rightarrow> (string option, 'w sys) eff" where
  "lastfmSearch e API_KEY [] = ret None"
| "lastfmSearch e API_KEY (searchParams # rest) =
     (let lastfmUrl = ''https://ws.audioscrobbler.com/2.0/?method=album.getinfo&'' @ searchParams
                        @ ''&api_key='' @ API_KEY @ ''&format=json''
      in andThen (onWorld (fetch e lastfmUrl)) (\<lambda>rsp.
           andThen (lastfmArtworkOf e rsp) (\<lambda>r.
             case r of Some imageResult \<Rightarrow> ret (Some imageResult)
                     | None \<Rightarrow> lastfmSearch e API_KEY rest)))"

definition getLastfmArtwork :: "'w env \<Rightarrow> (string, 'w sys) eff" where
  "getLastfmArtwork e =
     tryCatch
       (andThen (getTrackTitle e) (\<lambda>title.
        andThen (getTrackArtist e) (\<lambda>artist.
        andThen (getTrackAlbum e) (\<lambda>album.
          if title = [] \<or> artist = [] then ret []
          else
            let API_KEY = (case envLASTFM_API_KEY e of
                             Some k \<Rightarrow> if k \<noteq> [] then k else ''15ea39b489ea0fb56936a1573b5f6383''
                           | None \<Rightarrow> ''15ea39b489ea0fb56936a1573b5f6383'');
                searchStrategies = filterBoolean
                  [if album \<noteq> [] then
                     Some (''album='' @ encodeURIComponent e album @ ''&artist=''
                             @ encodeURIComponent e artist)
                   else None,
                   Some (''track='' @ encodeURIComponent e title @ ''&artist=''
                           @ encodeURIComponent e artist),
                   Some (''artist='' @ encodeURIComponent e artist)]
            in andThen (lastfmSearch e API_KEY searchStrategies) (\<lambda>r.
                 case r of Some imageResult \<Rightarrow> ret imageResult | None \<Rightarrow> ret [])))))
       (ret [])"

definition getMetadataArtwork :: "'w env \<Rightarrow> (string, 'w sys) eff" where
  "getMetadataArtwork e =
     tryCatch
       (andThen (onWorld (execSync e TrackLocationScript)) (\<lambda>out.
          let filePath = trim out in
          if filePath \<noteq> [] then
            andThen (onWorldTotal (existsSync e filePath)) (\<lambda>found.
              if found then
                andThen (onWorld (parseFile e filePath)) (\<lambda>metadata.
                  case picture metadata of
                    Some (pic # _) \<Rightarrow>
                      let base64 = toBase64 e (data pic)
                      in ret (''data:'' @ format pic @ '';base64,'' @ base64)
                  | _ \<Rightarrow> ret [])
              else ret [])
          else ret []))
       (ret [])"

text \<open>An element of \<^verbatim>\<open>sortedFiles\<close>: \<^verbatim>\<open>name\<close>, \<^verbatim>\<open>path\<close> and \<^verbatim>\<open>mtime.getTime()\<close>.\<close>

record CachedFile =
  cf_name :: string
  cf_path :: string
  cf_mtime :: int

text \<open>\<^verbatim>\<open>files.map(file => ({ name, path, mtime: statSync(...).mtime }))\<close>, left to right.\<close>

fun statFiles :: "'w env \<Rightarrow> string \<Rightarrow> string list \<Rightarrow> (CachedFile list, 'w sys) eff" where
  "statFiles e artworkPath [] = ret []"
| "statFiles e artworkPath (file # rest) =
     andThen (onWorld (statSyncMtime e (pathJoin e artworkPath file))) (\<lambda>mtime.
       andThen (statFiles e artworkPath rest) (\<lambda>more.
         ret (\<lparr>cf_name = file, cf_path = pathJoin e artworkPath file, cf_mtime = mtime\<rparr> # more)))"

definition getCachedArtwork :: "'w env \<Rightarrow> (string, 'w sys) eff" where
  "getCachedArtwork e =
     tryCatch
       (let artworkPath = pathJoin e (case envHOME e of Some h \<Rightarrow> h | None \<Rightarrow> [])
                            ''Library/Containers/com.apple.AMPMusic/Data/Documents/Artwork''
        in andThen (onWorldTotal (existsSync e artworkPath)) (\<lambda>found.
             if found then
               andThen (onWorld (readdirSync e artworkPath)) (\<lambda>files.
                 andThen (statFiles e artworkPath files) (\<lambda>stats.
                   let sortedFiles = sort_key (\<lambda>f. - cf_mtime f) stats in
                   case sortedFiles of
                     latestFile # _ \<Rightarrow>
                       andThen (onWorld (readFileSync e (cf_path latestFile))) (\<lambda>imageData.
                         let base64 = toBase64 e imageData
                         in ret (''data:image/jpeg;base64,'' @ base64))
                   | [] \<Rightarrow> ret []))
             else ret []))
       (ret [])"

subsection \<open>The artwork resolver\<close>

text \<open>Bookkeeping around a strategy call: once the strategy has returned \<open>r\<close>, the entry
  \<open>Tried t r\<close> is appended to the trace.\<close>

definition attempt :: "tier \<Rightarrow> (string, 'w sys) eff \<Rightarrow> (string, 'w sys) eff" where
  "attempt t m = andThen m (\<lambda>r. andThen (emit (Tried t r)) (\<lambda>_. ret r))"

definition getAlbumArt :: "'w env \<Rightarrow> (string, 'w sys) eff" where
  "getAlbumArt e =
     andThen (emit Resolving) (\<lambda>_.
     andThen (attempt AppleScriptTier (getAppleScriptArtworkBase64 e)) (\<lambda>base64Art.
       if base64Art \<noteq> [] then ret base64Art
       else
     andThen (attempt ItunesTier (getItunesArtwork e)) (\<lambda>itunesArt.
       if itunesArt \<noteq> [] then ret itunesArt
       else
     andThen (attempt LastfmTier (getLastfmArtwork e)) (\<lambda>lastfmArt.
       if lastfmArt \<noteq> [] then ret lastfmArt
       else
     andThen (attempt MetadataTier (getMetadataArtwork e)) (\<lambda>metadataArt.
       if metadataArt \<noteq> [] then ret metadataArt
       else
     andThen (attempt CachedTier (getCachedArtwork e)) (\<lambda>cachedArt.
       if cachedArt \<noteq> [] then ret cachedArt
       else ret []))))))"

subsection \<open>Poller, change detector, publisher\<close>

text \<open>The fields of \<^verbatim>\<open>class AppleMusicNowPlaying\<close> that the poll step reads and writes.\<close>

record App =
  lastSongData :: "SongData option"
  currentSong :: "SongData option"
  lastSongKey :: string

definition initialApp :: App where
  "initialApp = \<lparr>lastSongData = None, currentSong = None, lastSongKey = []\<rparr>"

text \<open>The state of the process: the object \<^verbatim>\<open>this\<close> and everything around it.\<close>

record 'w node =
  this :: App
  io :: "'w sys"

definition liftIO :: "('a, 'w sys) eff \<Rightarrow> ('a, 'w node) eff" where
  "liftIO m n = (case m (io n) of (r, s') \<Rightarrow> (r, n\<lparr>io := s'\<rparr>))"

definition getThis :: "(App, 'w node) eff" where
  "getThis n = (Returned (this n), n)"

definition assign :: "(App \<Rightarrow> App) \<Rightarrow> (unit, 'w node) eff" where
  "assign f n = (Returned (), n\<lparr>this := f (this n)\<rparr>)"

definition getBasicSongInfo :: "'w env \<Rightarrow> (SongData option, 'w sys) eff" where
  "getBasicSongInfo e =
     tryCatch
       (andThen (getPlayerState e) (\<lambda>playerState.
          if playerState = ''stopped'' then ret None
          else
            andThen (getTrackTitle e) (\<lambda>title.
            andThen (getTrackArtist e) (\<lambda>artist.
            andThen (getTrackAlbum e) (\<lambda>album.
            andThen (getSongDuration e) (\<lambda>duration.
            andThen (getSongPosition e) (\<lambda>position.
              if title = [] \<or> artist = [] then ret None
              else ret (Some
                \<lparr>title = title,
                 artist = artist,
                 album = (if album \<noteq> [] then album else ''Unknown Album''),
                 state = playerState,
                 albumArt = None,
                 duration = (if duration > 0 then Some duration else None),
                 position = (if position > 0 then Some position else None),
                 timestamp = None\<rparr>))))))))
       (ret None)"

definition sendSongToDeskThing :: "'w env \<Rightarrow> SongData \<Rightarrow> (unit, 'w sys) eff" where
  "sendSongToDeskThing e song =
     tryCatch
       (andThen (onWorldTotal (dateNow e)) (\<lambda>now.
          let payload =
                \<lparr>title = title song,
                 artist = artist song,
                 album = album song,
                 state = state song,
                 albumArt = albumArt song,
                 duration = duration song,
                 position = position song,
                 timestamp = Some now,
                 version = 2\<rparr>
          in emit (Published payload)))
       (ret ())"

text \<open>The template \<^verbatim>\<open>`${artist}-${title}-${album}`\<close>.\<close>

definition songKey :: "SongData \<Rightarrow> string" where
  "songKey song = artist song @ ''-'' @ title song @ ''-'' @ album song"

definition checkForChanges :: "'w env \<Rightarrow> (unit, 'w node) eff" where
  "checkForChanges e =
     tryCatch
       (andThen (liftIO (getBasicSongInfo e)) (\<lambda>polled.
          case polled of
            None \<Rightarrow> ret ()
          | Some basicSong \<Rightarrow>
              andThen getThis (\<lambda>self.
                let currentSongKey = songKey basicSong;
                    hasSongChanged = (currentSongKey \<noteq> lastSongKey self);
                    hasPositionChanged =
                      (case currentSong self of
                         Some cur \<Rightarrow> \<bar>orZero (position cur) - orZero (position basicSong)\<bar> > 1
                       | None \<Rightarrow> True);
                    hasStateChanged = (map_option state (currentSong self) \<noteq> Some (state basicSong))
                in
                  if hasSongChanged then
                    andThen (assign (\<lambda>a. a\<lparr>lastSongKey := currentSongKey\<rparr>)) (\<lambda>_.
                    andThen (liftIO (getAlbumArt e)) (\<lambda>art.
                      let fullSong = basicSong\<lparr>albumArt := (if art \<noteq> [] then Some art else None)\<rparr>
                      in
                        andThen (assign (\<lambda>a. a\<lparr>currentSong := Some fullSong\<rparr>)) (\<lambda>_.
                        andThen (liftIO (sendSongToDeskThing e fullSong)) (\<lambda>_.
                        andThen (liftIO (onWorldTotal (dateNow e))) (\<lambda>now.
                          assign (\<lambda>a. a\<lparr>lastSongData := Some (fullSong\<lparr>timestamp := Some now\<rparr>)\<rparr>))))))
                  else if hasPositionChanged \<or> hasStateChanged then
                    (case currentSong self of
                       Some cur \<Rightarrow>
                         let updated = cur\<lparr>position := position basicSong,
                                           duration := duration basicSong,
                                           state := state basicSong\<rparr>
                         in andThen (assign (\<lambda>a. a\<lparr>currentSong := Some updated\<rparr>)) (\<lambda>_.
                              liftIO (sendSongToDeskThing e updated))
                     | None \<Rightarrow> assign (\<lambda>a. a\<lparr>currentSong := Some basicSong\<rparr>))
                  else ret ())))
       (ret ())"



definition getCurrentSongData :: "App \<Rightarrow> SongData option" where
  "getCurrentSongData a = currentSong a"

text \<open>The private method \<^verbatim>\<open>hasSongChanged(currentSong)\<close>, which no other method calls.\<close>

definition hasSongChanged :: "App \<Rightarrow> SongData \<Rightarrow> bool" where
  "hasSongChanged a song =
     (case lastSongData a of
        None \<Rightarrow> True
      | Some l \<Rightarrow> title l \<noteq> title song \<or> artist l \<noteq> artist song
                  \<or> album l \<noteq> album song \<or> state l \<noteq> state song)"

subsection \<open>The HTTP handler\<close>

record request =
  reqMethod :: "string option"
  reqUrl :: "string option"

datatype body = NoBody | JsonBody "SongData option" | TextBody string

record reply =
  status :: nat
  headers :: "(string \<times> string) list"
  body :: body

text \<open>The callback of \<^verbatim>\<open>createServer\<close>. \<open>JsonBody x\<close> stands for \<^verbatim>\<open>JSON.stringify(x)\<close>, with
  \<open>None\<close> for \<^verbatim>\<open>null\<close>.\<close>

definition handleRequest :: "'w env \<Rightarrow> App \<Rightarrow> request \<Rightarrow> reply" where
  "handleRequest e a req =
     (let pathname = urlPathname e (case reqUrl req of Some u \<Rightarrow> u | None \<Rightarrow> []);
          cors = [(''Access-Control-Allow-Origin'', ''*''),
                  (''Access-Control-Allow-Methods'', ''GET, POST, OPTIONS''),
                  (''Access-Control-Allow-Headers'', ''Content-Type'')]
      in if reqMethod req = Some ''OPTIONS'' then
           \<lparr>status = 200, headers = cors, body = NoBody\<rparr>
         else if pathname = Some ''/api/current-song'' then
           \<lparr>status = 200, headers = cors @ [(''Content-Type'', ''application/json'')],
            body = JsonBody (getCurrentSongData a)\<rparr>
         else
           \<lparr>status = 404, headers = cors @ [(''Content-Type'', ''text/plain'')],
            body = TextBody ''Not Found''\<rparr>)"

subsection \<open>The display client's progress bar\<close>

text \<open>The React state that the progress logic of \<^verbatim>\<open>App.tsx\<close> uses; \<open>cl_currentSong\<close> and
  \<open>cl_displaySong\<close> are \<^verbatim>\<open>currentSong\<close> and \<^verbatim>\<open>displaySong\<close>.\<close>

record Client =
  cl_currentSong :: "SongData option"
  cl_displaySong :: "SongData option"
  progress :: real
  lastUpdateTime :: int
  lastPosition :: real

text \<open>Truthiness of an optional number: \<^verbatim>\<open>undefined\<close> and \<^verbatim>\<open>0\<close> are falsy.\<close>

definition truthy :: "real option \<Rightarrow> bool" where
  "truthy x = (case x of None \<Rightarrow> False | Some v \<Rightarrow> v \<noteq> 0)"

text \<open>\<^verbatim>\<open>currentSong || displaySong\<close>.\<close>

definition songToUse :: "Client \<Rightarrow> SongData option" where
  "songToUse c = (case cl_currentSong c of Some s \<Rightarrow> Some s | None \<Rightarrow> cl_displaySong c)"

text \<open>The effect "Update progress based on real song data", run at time \<open>now\<close>.\<close>

definition updateProgress :: "int \<Rightarrow> Client \<Rightarrow> Client" where
  "updateProgress now c =
     (case songToUse c of
        Some s \<Rightarrow>
          if truthy (duration s) \<and> truthy (position s) then
            let progressPercent = (the (position s) / the (duration s)) * 100
            in c\<lparr>progress := progressPercent, lastUpdateTime := now, lastPosition := the (position s)\<rparr>
          else c\<lparr>progress := 0, lastUpdateTime := 0, lastPosition := 0\<rparr>
      | None \<Rightarrow> c\<lparr>progress := 0, lastUpdateTime := 0, lastPosition := 0\<rparr>)"

text \<open>The guard of the simulation effect: the interval is installed only if this holds.\<close>

definition simulating :: "Client \<Rightarrow> bool" where
  "simulating c =
     (case songToUse c of
        Some s \<Rightarrow> \<not> (\<not> truthy (duration s) \<or> \<not> truthy (position s) \<or> state s \<noteq> ''playing'')
      | None \<Rightarrow> False)"

text \<open>The closure \<^verbatim>\<open>simulateProgress\<close> for the song \<open>s\<close> it has captured, called at \<open>now\<close>.\<close>

definition simulateProgress :: "SongData \<Rightarrow> int \<Rightarrow> Client \<Rightarrow> Client" where
  "simulateProgress s now c =
     (let timeSinceUpdate = real_of_int (now - lastUpdateTime c) / 1000;
          simulatedPosition = lastPosition c + timeSinceUpdate;
          progressPercent =
            (simulatedPosition / (if truthy (duration s) then the (duration s) else 1)) * 100
      in if progressPercent \<le> 100 then c\<lparr>progress := progressPercent\<rparr> else c)"

text \<open>One firing of the 100 ms timer: the callback runs if the effect installed it.\<close>

definition intervalTick :: "int \<Rightarrow> Client \<Rightarrow> Client" where
  "intervalTick now c =
     (case songToUse c of
        Some s \<Rightarrow> if simulating c then simulateProgress s now c else c
      | None \<Rightarrow> c)"

text \<open>The width of the bar in percent: \<^verbatim>\<open>Math.min(progress, 100)\<close>.\<close>

definition progressBarWidth :: "Client \<Rightarrow> real" where
  "progressBarWidth c = min (progress c) 100"

subsection \<open>The waterfall as the specification words it\<close>

definition tiers :: "tier list" where
  "tiers = [AppleScriptTier, ItunesTier, LastfmTier, MetadataTier, CachedTier]"

fun strategy :: "'w env \<Rightarrow> tier \<Rightarrow> (string, 'w sys) eff" where
  "strategy e AppleScriptTier = getAppleScriptArtworkBase64 e"
| "strategy e ItunesTier = getItunesArtwork e"
| "strategy e LastfmTier = getLastfmArtwork e"
| "strategy e MetadataTier = getMetadataArtwork e"
| "strategy e CachedTier = getCachedArtwork e"

text \<open>"An ordered list of strategy functions; iterate until first non-empty result."\<close>

fun firstNonEmpty :: "(string, 's) eff list \<Rightarrow> (string, 's) eff" where
  "firstNonEmpty [] = ret []"
| "firstNonEmpty (m # ms) = andThen m (\<lambda>r. if r \<noteq> [] then ret r else firstNonEmpty ms)"

subsection \<open>Properties of computations\<close>

definition neverThrows :: "('a, 's) eff \<Rightarrow> bool" where
  "neverThrows m = (\<forall>s. \<exists>a s'. m s = (Returned a, s'))"

definition quiet :: "('a, 'w sys) eff \<Rightarrow> bool" where
  "quiet m = (\<forall>s r s'. m s = (r, s') \<longrightarrow> trace s' = trace s)"

definition yields :: "('a \<Rightarrow> bool) \<Rightarrow> ('a, 's) eff \<Rightarrow> bool" where
  "yields P m = (\<forall>s a s'. m s = (Returned a, s') \<longrightarrow> P a)"

definition jpegOrEmpty :: "'w env \<Rightarrow> string \<Rightarrow> bool" where
  "jpegOrEmpty e r = (r = [] \<or> (\<exists>bs. r = dataUri ''image/jpeg'' (toBase64 e bs)))"

definition pictureOrEmpty :: "'w env \<Rightarrow> string \<Rightarrow> bool" where
  "pictureOrEmpty e r =
     (r = [] \<or> (\<exists>pic :: Picture. r = dataUri (format pic) (toBase64 e (data pic))))"

definition jpegIfSome :: "'w env \<Rightarrow> string option \<Rightarrow> bool" where
  "jpegIfSome e x = (case x of None \<Rightarrow> True | Some r \<Rightarrow> r \<noteq> [] \<and> jpegOrEmpty e r)"

text \<open>The payload that \<^verbatim>\<open>sendSongToDeskThing\<close> builds for a song when the clock reads \<open>now\<close>.\<close>

definition payloadOf :: "SongData \<Rightarrow> int \<Rightarrow> Payload" where
  "payloadOf song now =
     \<lparr>title = title song, artist = artist song, album = album song, state = state song,
      albumArt = albumArt song, duration = duration song, position = position song,
      timestamp = Some now, version = 2\<rparr>"



subsection \<open>Concrete environments and states\<close>

text \<open>Base64 as \<^verbatim>\<open>Buffer.toString('base64')\<close> computes it.\<close>

definition base64Alphabet :: string where
  "base64Alphabet = ''ABCDEFGHIJKLMNOPQRSTUVWXYZabcdefghijklmnopqrstuvwxyz0123456789+/''"

fun base64 :: "bytes \<Rightarrow> string" where
  "base64 [] = []"
| "base64 [a] =
     [base64Alphabet ! (unat a div 4), base64Alphabet ! ((unat a mod 4) * 16),
      CHR ''='', CHR ''='']"
| "base64 [a, b] =
     [base64Alphabet ! (unat a div 4),
      base64Alphabet ! ((unat a mod 4) * 16 + unat b div 16),
      base64Alphabet ! ((unat b mod 16) * 4), CHR ''='']"
| "base64 (a # b # c # rest) =
     [base64Alphabet ! (unat a div 4),
      base64Alphabet ! ((unat a mod 4) * 16 + unat b div 16),
      base64Alphabet ! ((unat b mod 16) * 4 + unat c div 64),
      base64Alphabet ! (unat c mod 64)] @ base64 rest"

definition startsWith :: "string \<Rightarrow> string \<Rightarrow> bool" where
  "startsWith p u = (take (length p) u = p)"

text \<open>The image array of a Last.fm \<^verbatim>\<open>album.getinfo\<close> answer, smallest first.\<close>

definition lastfmImages :: "LastFmImage list" where
  "lastfmImages =
     [\<lparr>img_size = ''small'', img_text = ''https://img/34s.png''\<rparr>,
      \<lparr>img_size = ''medium'', img_text = ''https://img/64s.png''\<rparr>,
      \<lparr>img_size = ''large'', img_text = ''https://img/174s.png''\<rparr>,
      \<lparr>img_size = ''extralarge'', img_text = ''https://img/300x300.png''\<rparr>,
      \<lparr>img_size = ''mega'', img_text = ''https://img/mega.png''\<rparr>]"

text \<open>A player that reports the given state, track and position (duration 200); the
  track has no embedded artwork and no local file, the iTunes search answers with an
  error status, Last.fm knows the album. The world counts the calls made so far and
  the clock reads 1000 plus that count.\<close>

definition playerEnv :: "string \<Rightarrow> string \<Rightarrow> string \<Rightarrow> string \<Rightarrow> string \<Rightarrow> nat env" where
  "playerEnv playerState trackArtist trackName trackAlbum playerPosition =
     \<lparr>execSync = (\<lambda>q w.
        (Returned
           ((case q of
               PlayerStateScript \<Rightarrow> playerState
             | TrackNameScript \<Rightarrow> trackName
             | TrackArtistScript \<Rightarrow> trackArtist
             | TrackAlbumScript \<Rightarrow> trackAlbum
             | ArtworkTempFileScript \<Rightarrow> []
             | TrackLocationScript \<Rightarrow> []
             | TrackDurationScript \<Rightarrow> ''200''
             | PlayerPositionScript \<Rightarrow> playerPosition) @ [CHR 0x0A]),
         Suc w)),
      fetch = (\<lambda>u w.
        (if startsWith ''https://ws.audioscrobbler.com/'' u then
           Returned \<lparr>ok = True,
                     json = Returned (LastFmJson \<lparr>lf_album = Some
                              \<lparr>name = trackAlbum, lf_artist = trackArtist,
                               image = Some lastfmImages\<rparr>\<rparr>),
                     arrayBuffer = Thrown\<rparr>
         else if startsWith ''https://img/'' u then
           Returned \<lparr>ok = True, json = Thrown, arrayBuffer = Returned [0xFF, 0xD8, 0xFF]\<rparr>
         else Returned \<lparr>ok = False, json = Thrown, arrayBuffer = Thrown\<rparr>,
         Suc w)),
      existsSync = (\<lambda>p w. (False, Suc w)),
      readFileSync = (\<lambda>p w. (Thrown, Suc w)),
      readdirSync = (\<lambda>p w. (Thrown, Suc w)),
      statSyncMtime = (\<lambda>p w. (Thrown, Suc w)),
      parseFile = (\<lambda>p w. (Thrown, Suc w)),
      dateNow = (\<lambda>w. (1000 + int w, Suc w)),
      envHOME = Some ''/Users/me'',
      envLASTFM_API_KEY = None,
      encodeURIComponent = (\<lambda>x. x),
      toBase64 = base64,
      pathJoin = (\<lambda>a b. a @ ''/'' @ b),
      parseInt = (\<lambda>x. if x = ''200'' then Some 200 else None),
      parseFloat = (\<lambda>x. if x = ''10'' then Some 10 else if x = ''10.5'' then Some 10.5
                         else if x = ''42'' then Some 42 else None),
      urlPathname = (\<lambda>u. Some (takeWhile (\<lambda>c. c \<noteq> CHR ''?'') u))\<rparr>"

text \<open>No player, no network, no files: every call that can throw does.\<close>

definition deadEnv :: "nat env" where
  "deadEnv =
     \<lparr>execSync = (\<lambda>q w. (Thrown, Suc w)),
      fetch = (\<lambda>u w. (Thrown, Suc w)),
      existsSync = (\<lambda>p w. (False, Suc w)),
      readFileSync = (\<lambda>p w. (Thrown, Suc w)),
      readdirSync = (\<lambda>p w. (Thrown, Suc w)),
      statSyncMtime = (\<lambda>p w. (Thrown, Suc w)),
      parseFile = (\<lambda>p w. (Thrown, Suc w)),
      dateNow = (\<lambda>w. (1000 + int w, Suc w)),
      envHOME = None,
      envLASTFM_API_KEY = None,
      encodeURIComponent = (\<lambda>x. x),
      toBase64 = base64,
      pathJoin = (\<lambda>a b. a @ ''/'' @ b),
      parseInt = (\<lambda>x. None),
      parseFloat = (\<lambda>x. None),
      urlPathname = (\<lambda>u. Some (takeWhile (\<lambda>c. c \<noteq> CHR ''?'') u))\<rparr>"

text \<open>The same player when the track is a local file with an embedded PNG picture.\<close>

definition localFileEnv :: "nat env" where
  "localFileEnv =
     (playerEnv ''playing'' ''B'' ''A'' ''C'' ''10'')
       \<lparr>execSync := (\<lambda>q w.
          (Returned (case q of TrackLocationScript \<Rightarrow> ''/Music/a.m4a'' | _ \<Rightarrow> []), Suc w)),
        existsSync := (\<lambda>p w. (p = ''/Music/a.m4a'', Suc w)),
        parseFile := (\<lambda>p w.
          (Returned \<lparr>picture = Some [\<lparr>format = ''image/png'', data = [1, 2, 3]\<rparr>]\<rparr>, Suc w))\<rparr>"

definition freshNode :: "nat node" where
  "freshNode = \<lparr>this = initialApp, io = \<lparr>world = 0, trace = []\<rparr>\<rparr>"

text \<open>The state after the first poll of the player \<open>playerEnv ''playing'' ''B'' ''A'' ''C'' ''10''\<close>
  in a fresh process.\<close>

definition playingSong :: SongData where
  "playingSong =
     \<lparr>title = ''A'', artist = ''B'', album = ''C'', state = ''playing'',
      albumArt = Some ''data:image/jpeg;base64,/9j/'', duration = Some 200,
      position = Some 10, timestamp = None\<rparr>"

definition playingNode :: "nat node" where
  "playingNode =
     \<lparr>this = \<lparr>lastSongData = Some (playingSong\<lparr>timestamp := Some 1020\<rparr>),
              currentSong = Some playingSong,
              lastSongKey = ''B-A-C''\<rparr>,
      io = \<lparr>world = 21,
            trace = [Resolving, Tried AppleScriptTier [], Tried ItunesTier [],
                     Tried LastfmTier ''data:image/jpeg;base64,/9j/'',
                     Published (payloadOf playingSong 1019)]\<rparr>\<rparr>"

text \<open>The same for a track by the artist \<open>A-B\<close> with the title \<open>C\<close> on the album \<open>D\<close>.\<close>

definition dashSong :: SongData where
  "dashSong =
     \<lparr>title = ''C'', artist = ''A-B'', album = ''D'', state = ''playing'',
      albumArt = Some ''data:image/jpeg;base64,/9j/'', duration = Some 200,
      position = Some 10, timestamp = None\<rparr>"

definition dashNode :: "nat node" where
  "dashNode =
     \<lparr>this = \<lparr>lastSongData = Some (dashSong\<lparr>timestamp := Some 1020\<rparr>),
              currentSong = Some dashSong,
              lastSongKey = ''A-B-C-D''\<rparr>,
      io = \<lparr>world = 21,
            trace = [Resolving, Tried AppleScriptTier [], Tried ItunesTier [],
                     Tried LastfmTier ''data:image/jpeg;base64,/9j/'',
                     Published (payloadOf dashSong 1019)]\<rparr>\<rparr>"

text \<open>A display client that has just received \<open>s\<close> and shows nothing yet.\<close>

definition clientWith :: "SongData \<Rightarrow> Client" where
  "clientWith s =
     \<lparr>cl_currentSong = Some s, cl_displaySong = None, progress = 0, lastUpdateTime = 0,
      lastPosition = 0\<rparr>"

section \<open>Verification\<close>

lemmas fixture_defs = playerEnv_def deadEnv_def localFileEnv_def startsWith_def lastfmImages_def
  base64Alphabet_def freshNode_def initialApp_def

lemmas eff_defs = ret_def settle_def andThen_def tryCatch_def onWorld_def onWorldTotal_def emit_def
  liftIO_def getThis_def assign_def

lemmas query_defs = getPlayerState_def getTrackTitle_def getTrackArtist_def getTrackAlbum_def
  getSongDuration_def getSongPosition_def trim_def isWhiteSpace_def orZero_def

lemmas strategy_defs = fetchAndConvertImage_def getAppleScriptArtworkBase64_def itunesArtworkOf_def
  getItunesArtwork_def largeImage_def lastfmArtworkOf_def getLastfmArtwork_def
  getMetadataArtwork_def getCachedArtwork_def attempt_def getAlbumArt_def
  as_iTunesResponse_def as_LastFmResponse_def

lemma neverThrows_ret: "neverThrows (ret a)"
  by (simp add: neverThrows_def ret_def)

lemma neverThrows_tryCatch: "neverThrows h \<Longrightarrow> neverThrows (tryCatch m h)"
  unfolding neverThrows_def tryCatch_def
  by (auto split: prod.splits outcome.splits) 

lemma neverThrows_andThen:
  "neverThrows m \<Longrightarrow> (\<And>a. neverThrows (f a)) \<Longrightarrow> neverThrows (andThen m f)"
proof -
  assume m: "neverThrows m" and f: "\<And>a. neverThrows (f a)"
  show ?thesis unfolding neverThrows_def
  proof
    fix s
    from m obtain a s1 where 1: "m s = (Returned a, s1)" unfolding neverThrows_def by blast
    from f obtain b s2 where 2: "f a s1 = (Returned b, s2)" unfolding neverThrows_def by blast
    show "\<exists>a s'. andThen m f s = (Returned a, s')" using 1 2 by (simp add: andThen_def)
  qed
qed

lemma neverThrows_emit: "neverThrows (emit ev)"
  by (simp add: neverThrows_def emit_def)

lemma neverThrows_onWorldTotal: "neverThrows (onWorldTotal f)"
  by (simp add: neverThrows_def onWorldTotal_def split: prod.splits)

lemma neverThrows_strategy: "neverThrows (strategy e t)"
  by (cases t)
     (simp_all add: getAppleScriptArtworkBase64_def getItunesArtwork_def getLastfmArtwork_def
        getMetadataArtwork_def getCachedArtwork_def neverThrows_tryCatch neverThrows_ret)

lemma neverThrows_fetchAndConvertImage: "neverThrows (fetchAndConvertImage e u)"
  by (simp add: fetchAndConvertImage_def neverThrows_tryCatch neverThrows_ret)

lemma neverThrows_attempt: "neverThrows m \<Longrightarrow> neverThrows (attempt t m)"
  unfolding attempt_def
  by (intro neverThrows_andThen neverThrows_emit neverThrows_ret)

lemma neverThrows_firstNonEmpty:
  "(\<And>m. m \<in> set ms \<Longrightarrow> neverThrows m) \<Longrightarrow> neverThrows (firstNonEmpty ms)"
  by (induction ms) (auto intro!: neverThrows_andThen neverThrows_ret)

lemma getAlbumArt_firstNonEmpty:
  "getAlbumArt e =
     andThen (emit Resolving) (\<lambda>_. firstNonEmpty (map (\<lambda>t. attempt t (strategy e t)) tiers))"
  by (simp add: getAlbumArt_def tiers_def cong del: if_weak_cong)

lemma quiet_ret: "quiet (ret a)"
  by (simp add: quiet_def ret_def)
lemma quiet_settle: "quiet (settle a)"
  by (simp add: quiet_def settle_def)
lemma quiet_onWorld: "quiet (onWorld f)"
  by (auto simp add: quiet_def onWorld_def split: prod.splits)
lemma quiet_onWorldTotal: "quiet (onWorldTotal f)"
  by (auto simp add: quiet_def onWorldTotal_def split: prod.splits)
lemma quiet_andThen: "quiet m \<Longrightarrow> (\<And>a. quiet (f a)) \<Longrightarrow> quiet (andThen m f)"
  unfolding quiet_def andThen_def
  by (fastforce split: prod.splits outcome.splits)
lemma quiet_tryCatch: "quiet m \<Longrightarrow> quiet h \<Longrightarrow> quiet (tryCatch m h)"
  unfolding quiet_def tryCatch_def
  by (fastforce split: prod.splits outcome.splits)

lemmas quiet_intros = quiet_ret quiet_settle quiet_onWorld quiet_onWorldTotal quiet_andThen quiet_tryCatch

lemma quiet_fetchAndConvertImage: "quiet (fetchAndConvertImage e u)"
  unfolding fetchAndConvertImage_def
  by (intro quiet_intros) (simp add: quiet_intros Let_def)

lemma quiet_getTrackTitle: "quiet (getTrackTitle e)"
  unfolding getTrackTitle_def by (intro quiet_intros)
lemma quiet_getTrackArtist: "quiet (getTrackArtist e)"
  unfolding getTrackArtist_def by (intro quiet_intros)
lemma quiet_getTrackAlbum: "quiet (getTrackAlbum e)"
  unfolding getTrackAlbum_def by (intro quiet_intros)
lemma quiet_getPlayerState: "quiet (getPlayerState e)"
  unfolding getPlayerState_def by (intro quiet_intros)
lemma quiet_getSongDuration: "quiet (getSongDuration e)"
  unfolding getSongDuration_def by (intro quiet_intros) (simp add: Let_def quiet_ret)
lemma quiet_getSongPosition: "quiet (getSongPosition e)"
  unfolding getSongPosition_def by (intro quiet_intros) (simp add: Let_def quiet_ret)

lemmas quiet_queries = quiet_getTrackTitle quiet_getTrackArtist quiet_getTrackAlbum
  quiet_getPlayerState quiet_getSongDuration quiet_getSongPosition

lemma quiet_itunesArtworkOf: "quiet (itunesArtworkOf e r)"
  unfolding itunesArtworkOf_def
  by (auto intro!: quiet_intros quiet_fetchAndConvertImage simp: Let_def split: option.splits list.splits)

lemma quiet_itunesSearch: "quiet (itunesSearch e ts)"
  by (induction ts) (auto intro!: quiet_intros quiet_itunesArtworkOf simp: Let_def split: option.splits)

lemma quiet_lastfmArtworkOf: "quiet (lastfmArtworkOf e r)"
  unfolding lastfmArtworkOf_def
  by (auto intro!: quiet_intros quiet_fetchAndConvertImage simp: Let_def split: option.splits list.splits)

lemma quiet_lastfmSearch: "quiet (lastfmSearch e k ts)"
  by (induction ts) (auto intro!: quiet_intros quiet_lastfmArtworkOf simp: Let_def split: option.splits)

lemma quiet_statFiles: "quiet (statFiles e d fs)"
  by (induction fs) (auto intro!: quiet_intros)

lemma quiet_getAppleScriptArtworkBase64: "quiet (getAppleScriptArtworkBase64 e)"
  unfolding getAppleScriptArtworkBase64_def
  by (auto intro!: quiet_intros simp: Let_def)

lemma quiet_getItunesArtwork: "quiet (getItunesArtwork e)"
  unfolding getItunesArtwork_def
  by (auto intro!: quiet_intros quiet_queries quiet_itunesSearch quiet_itunesArtworkOf
      simp: Let_def split: option.splits)

lemma quiet_getLastfmArtwork: "quiet (getLastfmArtwork e)"
  unfolding getLastfmArtwork_def
  by (auto intro!: quiet_intros quiet_queries quiet_lastfmSearch quiet_lastfmArtworkOf
      simp: Let_def split: option.splits)

lemma quiet_getMetadataArtwork: "quiet (getMetadataArtwork e)"
  unfolding getMetadataArtwork_def
  by (auto intro!: quiet_intros simp: Let_def split: option.splits list.splits)

lemma quiet_getCachedArtwork: "quiet (getCachedArtwork e)"
  unfolding getCachedArtwork_def
  by (auto intro!: quiet_intros quiet_statFiles simp: Let_def split: option.splits list.splits)

lemma quiet_strategy: "quiet (strategy e t)"
  by (cases t) (simp_all add: quiet_getAppleScriptArtworkBase64 quiet_getItunesArtwork
      quiet_getLastfmArtwork quiet_getMetadataArtwork quiet_getCachedArtwork)

lemma quiet_getBasicSongInfo: "quiet (getBasicSongInfo e)"
  unfolding getBasicSongInfo_def
  by (auto intro!: quiet_intros quiet_queries)


lemma attempt_run:
  assumes "m s = (Returned r, s1)"
  shows "attempt t m s = (Returned r, s1\<lparr>trace := trace s1 @ [Tried t r]\<rparr>)"
  using assms by (simp add: attempt_def andThen_def emit_def ret_def)

lemma firstNonEmpty_attempts:
  assumes nt: "\<And>t. neverThrows (f t)" and q: "\<And>t. quiet (f t)"
  shows "\<exists>r s' outs. firstNonEmpty (map (\<lambda>t. attempt t (f t)) ts) s = (Returned r, s')
           \<and> length outs \<le> length ts
           \<and> trace s' = trace s @ map (\<lambda>(t, out). Tried t out) (zip ts outs)
           \<and> (\<forall>out \<in> set (butlast outs). out = [])
           \<and> (ts \<noteq> [] \<longrightarrow> outs \<noteq> [] \<and> r = last outs)
           \<and> (ts = [] \<longrightarrow> r = [])
           \<and> (length outs < length ts \<longrightarrow> r \<noteq> [])"
proof (induction ts arbitrary: s)
  case Nil
  show ?case by (simp add: ret_def)
next
  case (Cons t ts)
  from nt obtain r1 s1 where run: "f t s = (Returned r1, s1)"
    unfolding neverThrows_def by blast
  with q have tr: "trace s1 = trace s" unfolding quiet_def by blast
  let ?s2 = "s1\<lparr>trace := trace s1 @ [Tried t r1]\<rparr>"
  have att: "attempt t (f t) s = (Returned r1, ?s2)" using run by (rule attempt_run [of "f t" s r1 s1 t])
  show ?case
  proof (cases "r1 = []")
    case False
    then have "firstNonEmpty (map (\<lambda>t. attempt t (f t)) (t # ts)) s = (Returned r1, ?s2)"
      by (simp add: andThen_def att ret_def)
    then show ?thesis using False tr
      by (intro exI [of _ r1] exI [of _ ?s2] exI [of _ "[r1]"]) simp
  next
    case True
    from Cons.IH [of ?s2] obtain r s' outs where ih:
      "firstNonEmpty (map (\<lambda>t. attempt t (f t)) ts) ?s2 = (Returned r, s')"
      "length outs \<le> length ts"
      "trace s' = trace ?s2 @ map (\<lambda>(t, out). Tried t out) (zip ts outs)"
      "\<forall>out \<in> set (butlast outs). out = []"
      "ts \<noteq> [] \<longrightarrow> outs \<noteq> [] \<and> r = last outs"
      "ts = [] \<longrightarrow> r = []"
      "length outs < length ts \<longrightarrow> r \<noteq> []"
      by blast
    have "firstNonEmpty (map (\<lambda>t. attempt t (f t)) (t # ts)) s = (Returned r, s')"
      using True ih(1) by (simp add: andThen_def att)
    moreover have "trace s' = trace s @ map (\<lambda>(t, out). Tried t out) (zip (t # ts) ([] # outs))"
      using ih(3) tr True by simp
    moreover have "\<forall>out \<in> set (butlast ([] # outs)). out = []"
      using ih(4) by simp
    moreover have "r = last ([] # outs)"
      using ih(2,5,6) by (cases "ts = []") auto
    moreover have "length ([] # outs) < length (t # ts) \<longrightarrow> r \<noteq> []"
      using ih(7) by simp
    ultimately show ?thesis using ih(2)
      by (intro exI [of _ r] exI [of _ s'] exI [of _ "[] # outs"]) simp
  qed
qed

lemma emit_run: "emit ev s = (Returned (), s\<lparr>trace := trace s @ [ev]\<rparr>)"
  by (simp add: emit_def)

lemma getAlbumArt_outs:
  "\<exists>r s' outs. getAlbumArt e s = (Returned r, s')
        \<and> 1 \<le> length outs \<and> length outs \<le> 5
        \<and> trace s' = trace s @ Resolving # map (\<lambda>(t, out). Tried t out) (zip tiers outs)
        \<and> (\<forall>out \<in> set (butlast outs). out = [])
        \<and> r = last outs
        \<and> (length outs < 5 \<longrightarrow> r \<noteq> [])"
proof -
  let ?s0 = "s\<lparr>trace := trace s @ [Resolving]\<rparr>"
  from firstNonEmpty_attempts [of "strategy e" tiers ?s0, OF neverThrows_strategy quiet_strategy]
  obtain r s' outs where w:
      "firstNonEmpty (map (\<lambda>t. attempt t (strategy e t)) tiers) ?s0 = (Returned r, s')"
      "length outs \<le> length tiers"
      "trace s' = trace ?s0 @ map (\<lambda>(t, out). Tried t out) (zip tiers outs)"
      "\<forall>out \<in> set (butlast outs). out = []"
      "tiers \<noteq> [] \<longrightarrow> outs \<noteq> [] \<and> r = last outs"
      "length outs < length tiers \<longrightarrow> r \<noteq> []"
    by blast
  have len: "length tiers = 5" and ne: "tiers \<noteq> []" by (simp_all add: tiers_def)
  have "getAlbumArt e s = (Returned r, s')"
    using w(1) by (simp add: getAlbumArt_firstNonEmpty andThen_def emit_run)
  moreover have "1 \<le> length outs" using w(5) ne by (cases outs) auto
  moreover have "trace s' = trace s @ Resolving # map (\<lambda>(t, out). Tried t out) (zip tiers outs)"
    using w(3) by simp
  ultimately show ?thesis
    using w(2,4,5,6) len ne by (intro exI [of _ r] exI [of _ s'] exI [of _ outs]) simp
qed

lemma yields_ret: "P a \<Longrightarrow> yields P (ret a)"
  by (simp add: yields_def ret_def)

lemma yields_andThen:
  "yields Q m \<Longrightarrow> (\<And>a. Q a \<Longrightarrow> yields P (f a)) \<Longrightarrow> yields P (andThen m f)"
  unfolding yields_def andThen_def
  by (fastforce split: prod.splits outcome.splits)

lemma yields_any: "yields (\<lambda>_. True) m"
  by (simp add: yields_def)

lemma yields_tryCatch: "yields P m \<Longrightarrow> yields P h \<Longrightarrow> yields P (tryCatch m h)"
  unfolding yields_def tryCatch_def
  by (fastforce split: prod.splits outcome.splits)

lemma jpegOrEmpty_Nil: "jpegOrEmpty e []"
  by (simp add: jpegOrEmpty_def)

lemma jpeg_literal: "''data:image/jpeg;base64,'' @ b = dataUri ''image/jpeg'' b"
  by (simp add: dataUri_def)

lemma jpegOrEmpty_uri: "jpegOrEmpty e (dataUri ''image/jpeg'' (toBase64 e bs))"
  unfolding jpegOrEmpty_def by blast

lemma metadata_literal: "''data:'' @ f @ '';base64,'' @ b = dataUri f b"
  by (simp add: dataUri_def)

lemmas yields_step = yields_andThen [OF yields_any]

lemma yields_fetchAndConvertImage: "yields (jpegOrEmpty e) (fetchAndConvertImage e u)"
  unfolding fetchAndConvertImage_def jpeg_literal Let_def
  by (auto intro!: yields_tryCatch yields_step yields_ret jpegOrEmpty_Nil jpegOrEmpty_uri)

lemma yields_getAppleScriptArtworkBase64:
  "yields (jpegOrEmpty e) (getAppleScriptArtworkBase64 e)"
  unfolding getAppleScriptArtworkBase64_def jpeg_literal Let_def
  by (auto intro!: yields_tryCatch yields_step yields_ret jpegOrEmpty_Nil jpegOrEmpty_uri)

lemma yields_keep:
  "yields (jpegOrEmpty e) m \<Longrightarrow>
   yields (jpegIfSome e) (andThen m (\<lambda>r. if r \<noteq> [] then ret (Some r) else ret None))"
  by (rule yields_andThen [where Q = "jpegOrEmpty e"])
     (auto simp: jpegIfSome_def intro!: yields_ret)

lemma jpegIfSome_None: "jpegIfSome e None"
  by (simp add: jpegIfSome_def)

lemma yields_itunesArtworkOf: "yields (jpegIfSome e) (itunesArtworkOf e rsp)"
  unfolding itunesArtworkOf_def Let_def
  by (auto intro!: yields_step yields_keep yields_fetchAndConvertImage yields_ret jpegIfSome_None
      split: option.splits list.splits)

lemma yields_again:
  "yields (jpegIfSome e) m \<Longrightarrow> yields (jpegIfSome e) k \<Longrightarrow>
   yields (jpegIfSome e) (andThen m (\<lambda>r. case r of Some i \<Rightarrow> ret (Some i) | None \<Rightarrow> k))"
  by (rule yields_andThen [where Q = "jpegIfSome e"])
     (auto intro!: yields_ret split: option.splits)

lemma yields_itunesSearch: "yields (jpegIfSome e) (itunesSearch e ts)"
proof (induction ts)
  case Nil
  show ?case by (simp add: yields_ret jpegIfSome_None)
next
  case (Cons t ts)
  show ?case
    unfolding itunesSearch.simps Let_def
    by (intro yields_step yields_again yields_itunesArtworkOf Cons.IH)
qed

lemma yields_finish:
  "yields (jpegIfSome e) m \<Longrightarrow> yields (jpegOrEmpty e) k \<Longrightarrow>
   yields (jpegOrEmpty e) (andThen m (\<lambda>r. case r of Some i \<Rightarrow> ret i | None \<Rightarrow> k))"
  by (rule yields_andThen [where Q = "jpegIfSome e"])
     (auto intro!: yields_ret simp: jpegIfSome_def split: option.splits)

lemma yields_getItunesArtwork: "yields (jpegOrEmpty e) (getItunesArtwork e)"
  unfolding getItunesArtwork_def Let_def
  apply (rule yields_tryCatch)
   apply (intro yields_step)
   apply (split if_split)
   apply (intro conjI impI)
    apply (simp add: yields_ret jpegOrEmpty_Nil)
   apply (rule yields_finish [OF yields_itunesSearch])
   apply (rule yields_step)
   apply (rule yields_finish [OF yields_itunesArtworkOf])
   apply (simp add: yields_ret jpegOrEmpty_Nil)
  apply (simp add: yields_ret jpegOrEmpty_Nil)
  done

lemma yields_lastfmArtworkOf: "yields (jpegIfSome e) (lastfmArtworkOf e rsp)"
  unfolding lastfmArtworkOf_def Let_def
  by (auto intro!: yields_step yields_keep yields_fetchAndConvertImage yields_ret jpegIfSome_None
      split: option.splits list.splits)

lemma yields_lastfmSearch: "yields (jpegIfSome e) (lastfmSearch e k ts)"
proof (induction ts)
  case Nil
  show ?case by (simp add: yields_ret jpegIfSome_None)
next
  case (Cons t ts)
  show ?case
    unfolding lastfmSearch.simps Let_def
    by (intro yields_step yields_again yields_lastfmArtworkOf Cons.IH)
qed

lemma yields_getLastfmArtwork: "yields (jpegOrEmpty e) (getLastfmArtwork e)"
  unfolding getLastfmArtwork_def Let_def
  apply (rule yields_tryCatch)
   apply (intro yields_step)
   apply (split if_split)
   apply (intro conjI impI)
    apply (simp add: yields_ret jpegOrEmpty_Nil)
   apply (rule yields_finish [OF yields_lastfmSearch])
   apply (simp add: yields_ret jpegOrEmpty_Nil)
  apply (simp add: yields_ret jpegOrEmpty_Nil)
  done

lemma yields_getCachedArtwork: "yields (jpegOrEmpty e) (getCachedArtwork e)"
  unfolding getCachedArtwork_def Let_def jpeg_literal
  by (auto intro!: yields_tryCatch yields_step yields_ret jpegOrEmpty_Nil jpegOrEmpty_uri
      split: list.splits)

lemma pictureOrEmpty_Nil: "pictureOrEmpty e []"
  by (simp add: pictureOrEmpty_def)

lemma pictureOrEmpty_uri:
  "pictureOrEmpty e (dataUri (format (p :: Picture)) (toBase64 e (data p)))"
  unfolding pictureOrEmpty_def by (rule disjI2, rule exI [of _ p]) (rule refl)

lemma yields_getMetadataArtwork: "yields (pictureOrEmpty e) (getMetadataArtwork e)"
  unfolding getMetadataArtwork_def Let_def metadata_literal
  by (auto intro!: yields_tryCatch yields_step yields_ret pictureOrEmpty_Nil pictureOrEmpty_uri
      split: list.splits option.splits)

subsection \<open>The order of the strategies\<close>

text \<open>
  Claim C1. Every run of \<^verbatim>\<open>getAlbumArt\<close> is the waterfall over the five strategies in the
  order AppleScript, iTunes, Last.fm, file tags, cache directory. The run returns, and
  there is a list \<open>outs\<close> of between one and five strategy results such that: the trace
  grows by \<open>Resolving\<close> and then one \<open>Tried\<close> entry per result, for the first strategies
  of the list in order; every result but the last is empty (an empty result did not stop
  the next attempt); the value returned is the last result; and if fewer than five
  strategies were tried, that value is not empty (later strategies are skipped only after
  a non-empty result). If all five were tried and the last is empty, the value is the
  empty string.
\<close>

theorem getAlbumArt_fixed_order:
  "getAlbumArt e =
     andThen (emit Resolving) (\<lambda>_. firstNonEmpty (map (\<lambda>t. attempt t (strategy e t)) tiers))
   \<and> (\<exists>r s' outs. getAlbumArt e s = (Returned r, s')
        \<and> 1 \<le> length outs \<and> length outs \<le> 5
        \<and> trace s' = trace s @ Resolving # map (\<lambda>(t, out). Tried t out) (zip tiers outs)
        \<and> (\<forall>out \<in> set (butlast outs). out = [])
        \<and> r = last outs
        \<and> (length outs < 5 \<longrightarrow> r \<noteq> []))"
  using getAlbumArt_firstNonEmpty [of e] getAlbumArt_outs [of e s] by (rule conjI)

text \<open>With the player of \<open>playerEnv\<close>: two empty results, then Last.fm succeeds and the
  last two strategies are not tried.\<close>

theorem getAlbumArt_fixed_order_witness:
  "fst (getAlbumArt (playerEnv ''playing'' ''B'' ''A'' ''C'' ''10'') \<lparr>world = 0, trace = []\<rparr>)
     = Returned ''data:image/jpeg;base64,/9j/''
   \<and> trace (snd (getAlbumArt (playerEnv ''playing'' ''B'' ''A'' ''C'' ''10'')
                    \<lparr>world = 0, trace = []\<rparr>))
     = [Resolving, Tried AppleScriptTier [], Tried ItunesTier [],
        Tried LastfmTier ''data:image/jpeg;base64,/9j/'']"
  using getAlbumArt_fixed_order
    [of "playerEnv ''playing'' ''B'' ''A'' ''C'' ''10''" "\<lparr>world = 0, trace = []\<rparr>"]
  by (simp add: fixture_defs eff_defs query_defs strategy_defs tiers_def Let_def)

subsection \<open>Failures inside a strategy\<close>

lemma yields_throws: "(\<And>w. fst (f w) = Thrown) \<Longrightarrow> yields P (onWorld f)"
  unfolding yields_def onWorld_def
  by (auto split: prod.splits) (metis fst_conv outcome.distinct(1))

lemma yields_onWorld: "(\<And>w a. fst (f w) = Returned a \<Longrightarrow> P a) \<Longrightarrow> yields P (onWorld f)"
  unfolding yields_def onWorld_def
  by (auto split: prod.splits) (metis fst_conv)

lemma yields_onWorldTotal: "(\<And>w. P (fst (f w))) \<Longrightarrow> yields P (onWorldTotal f)"
  unfolding yields_def onWorldTotal_def
  by (auto split: prod.splits) (metis fst_conv)

lemma yields_never: "yields (\<lambda>_. False) m \<Longrightarrow> yields P (andThen m f)"
  by (rule yields_andThen [where Q = "\<lambda>_. False"]) simp_all

lemma returned_empty:
  assumes "neverThrows m" and "yields (\<lambda>r. r = []) m"
  shows "fst (m s) = Returned []"
proof -
  from assms(1) obtain a s' where "m s = (Returned a, s')" unfolding neverThrows_def by blast
  with assms(2) show ?thesis unfolding yields_def by auto
qed

text \<open>Every shell query throws or prints nothing but white space.\<close>

lemma mute_query:
  assumes "\<And>w. case fst (execSync e q w) of Thrown \<Rightarrow> True | Returned out \<Rightarrow> trim out = []"
  shows "yields (\<lambda>out. trim out = []) (onWorld (execSync e q))"
proof (rule yields_onWorld)
  fix w a assume "fst (execSync e q w) = Returned a"
  with assms [of w] show "trim a = []" by simp
qed

lemma mute_getTrackTitle:
  assumes "\<And>q w. case fst (execSync e q w) of Thrown \<Rightarrow> True | Returned out \<Rightarrow> trim out = []"
  shows "yields (\<lambda>r. r = []) (getTrackTitle e)"
  unfolding getTrackTitle_def
  by (intro yields_tryCatch yields_andThen [OF mute_query [of e]] yields_ret assms) simp_all

lemma mute_getAppleScriptArtworkBase64:
  assumes "\<And>q w. case fst (execSync e q w) of Thrown \<Rightarrow> True | Returned out \<Rightarrow> trim out = []"
  shows "yields (\<lambda>r. r = []) (getAppleScriptArtworkBase64 e)"
  unfolding getAppleScriptArtworkBase64_def Let_def
  by (intro yields_tryCatch yields_andThen [OF mute_query [of e]] assms)
     (simp_all add: yields_ret)

lemma mute_getMetadataArtwork:
  assumes "\<And>q w. case fst (execSync e q w) of Thrown \<Rightarrow> True | Returned out \<Rightarrow> trim out = []"
  shows "yields (\<lambda>r. r = []) (getMetadataArtwork e)"
  unfolding getMetadataArtwork_def Let_def
  by (intro yields_tryCatch yields_andThen [OF mute_query [of e]] assms)
     (simp_all add: yields_ret)

lemma mute_getItunesArtwork:
  assumes "\<And>q w. case fst (execSync e q w) of Thrown \<Rightarrow> True | Returned out \<Rightarrow> trim out = []"
  shows "yields (\<lambda>r. r = []) (getItunesArtwork e)"
  unfolding getItunesArtwork_def
  by (intro yields_tryCatch yields_andThen [OF mute_getTrackTitle [of e]] yields_step assms)
     (simp_all add: yields_ret)

lemma mute_getLastfmArtwork:
  assumes "\<And>q w. case fst (execSync e q w) of Thrown \<Rightarrow> True | Returned out \<Rightarrow> trim out = []"
  shows "yields (\<lambda>r. r = []) (getLastfmArtwork e)"
  unfolding getLastfmArtwork_def
  by (intro yields_tryCatch yields_andThen [OF mute_getTrackTitle [of e]] yields_step assms)
     (simp_all add: yields_ret)

text \<open>Every \<^verbatim>\<open>fetch\<close> rejects.\<close>

lemma offline_fetchAndConvertImage:
  assumes "\<And>u w. fst (fetch e u w) = Thrown"
  shows "yields (\<lambda>r. r = []) (fetchAndConvertImage e u)"
  unfolding fetchAndConvertImage_def
  by (intro yields_tryCatch yields_never yields_throws assms yields_ret) simp

lemma offline_itunesSearch:
  assumes "\<And>u w. fst (fetch e u w) = Thrown"
  shows "yields (\<lambda>_. False) (itunesSearch e (t # ts))"
  unfolding itunesSearch.simps Let_def
  by (intro yields_never yields_throws assms)

lemma offline_lastfmSearch:
  assumes "\<And>u w. fst (fetch e u w) = Thrown" and "ts \<noteq> []"
  shows "yields (\<lambda>_. False) (lastfmSearch e k ts)"
proof (cases ts)
  case Nil
  with assms(2) show ?thesis by simp
next
  case (Cons t rest)
  show ?thesis
    unfolding Cons lastfmSearch.simps Let_def
    by (intro yields_never yields_throws assms(1))
qed

lemma offline_getItunesArtwork:
  assumes "\<And>u w. fst (fetch e u w) = Thrown"
  shows "yields (\<lambda>r. r = []) (getItunesArtwork e)"
  unfolding getItunesArtwork_def Let_def
  apply (rule yields_tryCatch)
   apply (intro yields_step)
   apply (split if_split)
   apply (intro conjI impI)
    apply (simp add: yields_ret)
   apply (rule yields_never)
   apply (rule offline_itunesSearch [OF assms])
  apply (simp add: yields_ret)
  done

lemma filterBoolean_track:
  "filterBoolean [x, Some (''track='' @ a), y] \<noteq> []"
  by (cases x) simp_all

lemma offline_getLastfmArtwork:
  assumes "\<And>u w. fst (fetch e u w) = Thrown"
  shows "yields (\<lambda>r. r = []) (getLastfmArtwork e)"
  unfolding getLastfmArtwork_def Let_def
  apply (rule yields_tryCatch)
   apply (intro yields_step)
   apply (split if_split)
   apply (intro conjI impI)
    apply (simp add: yields_ret)
   apply (rule yields_never)
   apply (rule offline_lastfmSearch [OF assms])
   apply (rule filterBoolean_track)
  apply (simp add: yields_ret)
  done

text \<open>No path exists.\<close>

lemma missing_file:
  assumes "\<And>p w. \<not> fst (existsSync e p w)"
  shows "yields (\<lambda>found. \<not> found) (onWorldTotal (existsSync e p))"
  by (rule yields_onWorldTotal) (rule assms)

lemma missing_getAppleScriptArtworkBase64:
  assumes "\<And>p w. \<not> fst (existsSync e p w)"
  shows "yields (\<lambda>r. r = []) (getAppleScriptArtworkBase64 e)"
  unfolding getAppleScriptArtworkBase64_def Let_def
  by (auto intro!: yields_tryCatch yields_step yields_ret
        yields_andThen [OF missing_file [OF assms]])

lemma missing_getMetadataArtwork:
  assumes "\<And>p w. \<not> fst (existsSync e p w)"
  shows "yields (\<lambda>r. r = []) (getMetadataArtwork e)"
  unfolding getMetadataArtwork_def Let_def
  by (auto intro!: yields_tryCatch yields_step yields_ret
        yields_andThen [OF missing_file [OF assms]])

lemma missing_getCachedArtwork:
  assumes "\<And>p w. \<not> fst (existsSync e p w)"
  shows "yields (\<lambda>r. r = []) (getCachedArtwork e)"
  unfolding getCachedArtwork_def Let_def
  by (auto intro!: yields_tryCatch yields_ret yields_andThen [OF missing_file [OF assms]])

lemma neverThrows_getAlbumArt: "neverThrows (getAlbumArt e)"
  unfolding getAlbumArt_firstNonEmpty
  by (intro neverThrows_andThen neverThrows_emit neverThrows_firstNonEmpty)
     (auto intro!: neverThrows_attempt neverThrows_strategy)

lemmas neverThrows_strategies =
  neverThrows_strategy [of _ AppleScriptTier, simplified]
  neverThrows_strategy [of _ ItunesTier, simplified]
  neverThrows_strategy [of _ LastfmTier, simplified]
  neverThrows_strategy [of _ MetadataTier, simplified]
  neverThrows_strategy [of _ CachedTier, simplified]

text \<open>
  Claim C5. The artwork resolver never raises: \<^verbatim>\<open>getAlbumArt\<close>, each of the five
  strategies and \<^verbatim>\<open>fetchAndConvertImage\<close> return a value in every environment and every
  state, whatever the shell, the network and the file system do. A failing strategy
  returns the empty string: if every shell query throws or prints nothing (no shell, no
  player), the four strategies that ask the player return empty; if every \<^verbatim>\<open>fetch\<close>
  rejects, the image download and both network strategies return empty; if no path
  exists, the three strategies that read files return empty.
\<close>

theorem resolver_never_raises:
  "(\<exists>r s'. getAlbumArt e s = (Returned r, s'))
   \<and> (\<exists>r s'. strategy e t s = (Returned r, s'))
   \<and> (\<exists>r s'. fetchAndConvertImage e u s = (Returned r, s'))
   \<and> ((\<forall>q w. case fst (execSync e q w) of Thrown \<Rightarrow> True | Returned out \<Rightarrow> trim out = [])
        \<longrightarrow> fst (getAppleScriptArtworkBase64 e s) = Returned []
          \<and> fst (getItunesArtwork e s) = Returned []
          \<and> fst (getLastfmArtwork e s) = Returned []
          \<and> fst (getMetadataArtwork e s) = Returned [])
   \<and> ((\<forall>v w. fst (fetch e v w) = Thrown)
        \<longrightarrow> fst (fetchAndConvertImage e u s) = Returned []
          \<and> fst (getItunesArtwork e s) = Returned []
          \<and> fst (getLastfmArtwork e s) = Returned [])
   \<and> ((\<forall>p w. \<not> fst (existsSync e p w))
        \<longrightarrow> fst (getAppleScriptArtworkBase64 e s) = Returned []
          \<and> fst (getMetadataArtwork e s) = Returned []
          \<and> fst (getCachedArtwork e s) = Returned [])"
proof (intro conjI impI)
  show "\<exists>r s'. getAlbumArt e s = (Returned r, s')"
    using neverThrows_getAlbumArt [of e] unfolding neverThrows_def by blast
  show "\<exists>r s'. strategy e t s = (Returned r, s')"
    using neverThrows_strategy [of e t] unfolding neverThrows_def by blast
  show "\<exists>r s'. fetchAndConvertImage e u s = (Returned r, s')"
    using neverThrows_fetchAndConvertImage [of e u] unfolding neverThrows_def by blast
next
  assume "\<forall>q w. case fst (execSync e q w) of Thrown \<Rightarrow> True | Returned out \<Rightarrow> trim out = []"
  then have mute: "\<And>q w. case fst (execSync e q w) of Thrown \<Rightarrow> True | Returned out \<Rightarrow> trim out = []"
    by blast
  show "fst (getAppleScriptArtworkBase64 e s) = Returned []"
    by (rule returned_empty [OF neverThrows_strategies(1) mute_getAppleScriptArtworkBase64 [OF mute]])
  show "fst (getItunesArtwork e s) = Returned []"
    by (rule returned_empty [OF neverThrows_strategies(2) mute_getItunesArtwork [OF mute]])
  show "fst (getLastfmArtwork e s) = Returned []"
    by (rule returned_empty [OF neverThrows_strategies(3) mute_getLastfmArtwork [OF mute]])
  show "fst (getMetadataArtwork e s) = Returned []"
    by (rule returned_empty [OF neverThrows_strategies(4) mute_getMetadataArtwork [OF mute]])
next
  assume "\<forall>v w. fst (fetch e v w) = Thrown"
  then have off: "\<And>v w. fst (fetch e v w) = Thrown" by blast
  show "fst (fetchAndConvertImage e u s) = Returned []"
    by (rule returned_empty [OF neverThrows_fetchAndConvertImage offline_fetchAndConvertImage [OF off]])
  show "fst (getItunesArtwork e s) = Returned []"
    by (rule returned_empty [OF neverThrows_strategies(2) offline_getItunesArtwork [OF off]])
  show "fst (getLastfmArtwork e s) = Returned []"
    by (rule returned_empty [OF neverThrows_strategies(3) offline_getLastfmArtwork [OF off]])
next
  assume "\<forall>p w. \<not> fst (existsSync e p w)"
  then have gone: "\<And>p w. \<not> fst (existsSync e p w)" by blast
  show "fst (getAppleScriptArtworkBase64 e s) = Returned []"
    by (rule returned_empty [OF neverThrows_strategies(1) missing_getAppleScriptArtworkBase64 [OF gone]])
  show "fst (getMetadataArtwork e s) = Returned []"
    by (rule returned_empty [OF neverThrows_strategies(4) missing_getMetadataArtwork [OF gone]])
  show "fst (getCachedArtwork e s) = Returned []"
    by (rule returned_empty [OF neverThrows_strategies(5) missing_getCachedArtwork [OF gone]])
qed

text \<open>In \<open>deadEnv\<close> all three failure conditions hold; the resolver still tries all five
  strategies and returns the empty string.\<close>

theorem resolver_never_raises_witness:
  "(\<forall>q w. case fst (execSync deadEnv q w) of Thrown \<Rightarrow> True | Returned out \<Rightarrow> trim out = [])
   \<and> (\<forall>v w. fst (fetch deadEnv v w) = Thrown)
   \<and> (\<forall>p w. \<not> fst (existsSync deadEnv p w))
   \<and> fst (getAppleScriptArtworkBase64 deadEnv \<lparr>world = 0, trace = []\<rparr>) = Returned []
   \<and> fst (getItunesArtwork deadEnv \<lparr>world = 0, trace = []\<rparr>) = Returned []
   \<and> fst (getLastfmArtwork deadEnv \<lparr>world = 0, trace = []\<rparr>) = Returned []
   \<and> fst (getMetadataArtwork deadEnv \<lparr>world = 0, trace = []\<rparr>) = Returned []
   \<and> fst (getCachedArtwork deadEnv \<lparr>world = 0, trace = []\<rparr>) = Returned []
   \<and> fst (fetchAndConvertImage deadEnv ''https://img/174s.png'' \<lparr>world = 0, trace = []\<rparr>)
       = Returned []
   \<and> fst (getAlbumArt deadEnv \<lparr>world = 0, trace = []\<rparr>) = Returned []
   \<and> trace (snd (getAlbumArt deadEnv \<lparr>world = 0, trace = []\<rparr>))
       = [Resolving, Tried AppleScriptTier [], Tried ItunesTier [], Tried LastfmTier [],
          Tried MetadataTier [], Tried CachedTier []]"
proof -
  have h1: "\<forall>q w. case fst (execSync deadEnv q w) of Thrown \<Rightarrow> True | Returned out \<Rightarrow> trim out = []"
    by (simp add: deadEnv_def)
  have h2: "\<forall>v w. fst (fetch deadEnv v w) = Thrown"
    by (simp add: deadEnv_def)
  have h3: "\<forall>p w. \<not> fst (existsSync deadEnv p w)"
    by (simp add: deadEnv_def)
  note inst = resolver_never_raises
    [of deadEnv "\<lparr>world = 0, trace = []\<rparr>" CachedTier "''https://img/174s.png''"]
  have run: "fst (getAlbumArt deadEnv \<lparr>world = 0, trace = []\<rparr>) = Returned []
     \<and> trace (snd (getAlbumArt deadEnv \<lparr>world = 0, trace = []\<rparr>))
       = [Resolving, Tried AppleScriptTier [], Tried ItunesTier [], Tried LastfmTier [],
          Tried MetadataTier [], Tried CachedTier []]"
    by (simp add: fixture_defs eff_defs query_defs strategy_defs Let_def)
  from inst h1 h2 h3 run show ?thesis by blast
qed

subsection \<open>The shape of a result\<close>

lemma yields_weaken: "yields P m \<Longrightarrow> (\<And>a. P a \<Longrightarrow> Q a) \<Longrightarrow> yields Q m"
  unfolding yields_def by blast

lemma yields_attempt: "yields P m \<Longrightarrow> yields P (attempt t m)"
  unfolding attempt_def
  by (rule yields_andThen [where Q = P]) (auto intro!: yields_step yields_ret)

lemma yields_firstNonEmpty:
  "(\<And>m. m \<in> set ms \<Longrightarrow> yields P m) \<Longrightarrow> P [] \<Longrightarrow> yields P (firstNonEmpty ms)"
proof (induction ms)
  case Nil
  then show ?case by (simp add: yields_ret)
next
  case (Cons m ms)
  have "yields P m" by (rule Cons.prems(1)) simp
  then show ?case
    unfolding firstNonEmpty.simps
    by (rule yields_andThen) (simp add: yields_ret Cons)
qed

lemma yields_strategy: "yields (\<lambda>r. jpegOrEmpty e r \<or> pictureOrEmpty e r) (strategy e t)"
proof (cases t)
  case AppleScriptTier
  then show ?thesis
    using yields_weaken [OF yields_getAppleScriptArtworkBase64 [of e]] by simp
next
  case ItunesTier
  then show ?thesis using yields_weaken [OF yields_getItunesArtwork [of e]] by simp
next
  case LastfmTier
  then show ?thesis using yields_weaken [OF yields_getLastfmArtwork [of e]] by simp
next
  case MetadataTier
  then show ?thesis using yields_weaken [OF yields_getMetadataArtwork [of e]] by simp
next
  case CachedTier
  then show ?thesis using yields_weaken [OF yields_getCachedArtwork [of e]] by simp
qed

lemma yields_jpeg_strategy: "t \<noteq> MetadataTier \<Longrightarrow> yields (jpegOrEmpty e) (strategy e t)"
  by (cases t)
     (simp_all add: yields_getAppleScriptArtworkBase64 yields_getItunesArtwork
        yields_getLastfmArtwork yields_getCachedArtwork)

lemma yields_getAlbumArt: "yields (\<lambda>r. jpegOrEmpty e r \<or> pictureOrEmpty e r) (getAlbumArt e)"
  unfolding getAlbumArt_firstNonEmpty
  by (intro yields_step yields_firstNonEmpty)
     (auto intro!: yields_attempt yields_strategy simp: jpegOrEmpty_Nil)

text \<open>
  Claim C7. A non-empty result of \<^verbatim>\<open>getAlbumArt\<close> is \<open>dataUri mime payload\<close>, that is
  \<^verbatim>\<open>data:<mime>;base64,<payload>\<close> with the payload a base64 encoding: either with the
  MIME type \<^verbatim>\<open>image/jpeg\<close>, or with the format that the file tags report. Every strategy
  but the file-tag strategy, and \<^verbatim>\<open>fetchAndConvertImage\<close>, tag \<^verbatim>\<open>image/jpeg\<close> whatever
  the bytes are; the file-tag strategy uses the picture's own format.
\<close>

theorem artwork_is_data_uri:
  "(getAlbumArt e s = (Returned r, s') \<and> r \<noteq> []
      \<longrightarrow> (\<exists>bs. r = dataUri ''image/jpeg'' (toBase64 e bs))
        \<or> (\<exists>pic :: Picture. r = dataUri (format pic) (toBase64 e (data pic))))
   \<and> (t \<noteq> MetadataTier \<and> strategy e t s = (Returned r, s') \<and> r \<noteq> []
      \<longrightarrow> (\<exists>bs. r = dataUri ''image/jpeg'' (toBase64 e bs)))
   \<and> (getMetadataArtwork e s = (Returned r, s') \<and> r \<noteq> []
      \<longrightarrow> (\<exists>pic :: Picture. r = dataUri (format pic) (toBase64 e (data pic))))
   \<and> (fetchAndConvertImage e u s = (Returned r, s') \<and> r \<noteq> []
      \<longrightarrow> (\<exists>bs. r = dataUri ''image/jpeg'' (toBase64 e bs)))
   \<and> dataUri mime payload = ''data:'' @ mime @ '';base64,'' @ payload"
proof (intro conjI impI)
  assume "getAlbumArt e s = (Returned r, s') \<and> r \<noteq> []"
  with yields_getAlbumArt [of e]
  show "(\<exists>bs. r = dataUri ''image/jpeg'' (toBase64 e bs))
        \<or> (\<exists>pic :: Picture. r = dataUri (format pic) (toBase64 e (data pic)))"
    unfolding yields_def jpegOrEmpty_def pictureOrEmpty_def by blast
next
  assume "t \<noteq> MetadataTier \<and> strategy e t s = (Returned r, s') \<and> r \<noteq> []"
  with yields_jpeg_strategy [of t e]
  show "\<exists>bs. r = dataUri ''image/jpeg'' (toBase64 e bs)"
    unfolding yields_def jpegOrEmpty_def by blast
next
  assume "getMetadataArtwork e s = (Returned r, s') \<and> r \<noteq> []"
  with yields_getMetadataArtwork [of e]
  show "\<exists>pic :: Picture. r = dataUri (format pic) (toBase64 e (data pic))"
    unfolding yields_def pictureOrEmpty_def by blast
next
  assume "fetchAndConvertImage e u s = (Returned r, s') \<and> r \<noteq> []"
  with yields_fetchAndConvertImage [of e u]
  show "\<exists>bs. r = dataUri ''image/jpeg'' (toBase64 e bs)"
    unfolding yields_def jpegOrEmpty_def by blast
next
  show "dataUri mime payload = ''data:'' @ mime @ '';base64,'' @ payload"
    by (simp add: dataUri_def)
qed

text \<open>A JPEG-tagged result from Last.fm, and a PNG picture from the tags of a local file.\<close>

theorem artwork_is_data_uri_witness:
  "getLastfmArtwork (playerEnv ''playing'' ''B'' ''A'' ''C'' ''10'') \<lparr>world = 0, trace = []\<rparr>
     = (Returned ''data:image/jpeg;base64,/9j/'', \<lparr>world = 5, trace = []\<rparr>)
   \<and> (\<exists>bs. ''data:image/jpeg;base64,/9j/''
          = dataUri ''image/jpeg'' (toBase64 (playerEnv ''playing'' ''B'' ''A'' ''C'' ''10'') bs))
   \<and> fst (getAlbumArt localFileEnv \<lparr>world = 0, trace = []\<rparr>)
       = Returned ''data:image/png;base64,AQID''
   \<and> fst (getMetadataArtwork localFileEnv \<lparr>world = 0, trace = []\<rparr>)
       = Returned ''data:image/png;base64,AQID''
   \<and> (\<exists>pic :: Picture. ''data:image/png;base64,AQID''
          = dataUri (format pic) (toBase64 localFileEnv (data pic)))"
proof -
  let ?e = "playerEnv ''playing'' ''B'' ''A'' ''C'' ''10''"
  let ?s = "\<lparr>world = 0 :: nat, trace = []\<rparr>"
  have a: "getLastfmArtwork ?e ?s = (Returned ''data:image/jpeg;base64,/9j/'', \<lparr>world = 5, trace = []\<rparr>)"
    by (simp add: fixture_defs eff_defs query_defs strategy_defs Let_def)
  have b: "fst (getAlbumArt localFileEnv ?s) = Returned ''data:image/png;base64,AQID''"
    by (simp add: fixture_defs eff_defs query_defs strategy_defs Let_def)
  have c: "fst (getMetadataArtwork localFileEnv ?s) = Returned ''data:image/png;base64,AQID''"
    by (simp add: fixture_defs eff_defs query_defs strategy_defs Let_def)
  obtain s' where c': "getMetadataArtwork localFileEnv ?s = (Returned ''data:image/png;base64,AQID'', s')"
    using c by (cases "getMetadataArtwork localFileEnv ?s") simp
  have a': "LastfmTier \<noteq> MetadataTier
      \<and> strategy ?e LastfmTier ?s = (Returned ''data:image/jpeg;base64,/9j/'', \<lparr>world = 5, trace = []\<rparr>)
      \<and> ''data:image/jpeg;base64,/9j/'' \<noteq> []"
    using a by simp
  have d: "\<exists>bs. ''data:image/jpeg;base64,/9j/'' = dataUri ''image/jpeg'' (toBase64 ?e bs)"
    using artwork_is_data_uri
            [of ?e ?s "''data:image/jpeg;base64,/9j/''" "\<lparr>world = 5, trace = []\<rparr>" LastfmTier,
             THEN conjunct2, THEN conjunct1] a'
    by (rule mp)
  have c'': "getMetadataArtwork localFileEnv ?s = (Returned ''data:image/png;base64,AQID'', s')
      \<and> ''data:image/png;base64,AQID'' \<noteq> []"
    using c' by simp
  have f: "\<exists>pic :: Picture. ''data:image/png;base64,AQID''
             = dataUri (format pic) (toBase64 localFileEnv (data pic))"
    using artwork_is_data_uri
            [of localFileEnv ?s "''data:image/png;base64,AQID''" s',
             THEN conjunct2, THEN conjunct2, THEN conjunct1] c''
    by (rule mp)
  from a b c d f show ?thesis by blast
qed

subsection \<open>One poll step\<close>

lemma getBasicSongInfo_run:
  "\<exists>polled s1. getBasicSongInfo e s = (Returned polled, s1) \<and> trace s1 = trace s"
proof -
  have "neverThrows (getBasicSongInfo e)"
    by (simp add: getBasicSongInfo_def neverThrows_tryCatch neverThrows_ret)
  then obtain polled s1 where r: "getBasicSongInfo e s = (Returned polled, s1)"
    unfolding neverThrows_def by blast
  with quiet_getBasicSongInfo [of e] have "trace s1 = trace s" unfolding quiet_def by blast
  with r show ?thesis by blast
qed

lemma getAlbumArt_run:
  "\<exists>art s2 outs. getAlbumArt e s = (Returned art, s2)
      \<and> trace s2 = trace s @ Resolving # map (\<lambda>(t, out). Tried t out) (zip tiers outs)"
  using getAlbumArt_outs [of e s] by blast

lemma sendSongToDeskThing_run:
  "sendSongToDeskThing e song s =
     (Returned (), \<lparr>world = snd (dateNow e (world s)),
                    trace = trace s @ [Published (payloadOf song (fst (dateNow e (world s))))]\<rparr>)"
  by (simp add: sendSongToDeskThing_def payloadOf_def eff_defs Let_def split: prod.splits)

lemma checkForChanges_None:
  assumes "getBasicSongInfo e (io n) = (Returned None, s1)"
  shows "checkForChanges e n = (Returned (), n\<lparr>io := s1\<rparr>)"
  using assms by (simp add: checkForChanges_def eff_defs)

lemma checkForChanges_same:
  assumes "getBasicSongInfo e (io n) = (Returned (Some b), s1)"
    and "currentSong (this n) = Some cur" and "lastSongKey (this n) = songKey b"
    and "state b = state cur" and "\<bar>orZero (position cur) - orZero (position b)\<bar> \<le> 1"
  shows "checkForChanges e n = (Returned (), n\<lparr>io := s1\<rparr>)"
  using assms by (simp add: checkForChanges_def eff_defs Let_def)



lemma checkForChanges_changed:
  assumes "getBasicSongInfo e (io n) = (Returned (Some b), s1)"
    and "songKey b \<noteq> lastSongKey (this n)"
    and "getAlbumArt e s1 = (Returned art, s2)"
  shows "checkForChanges e n =
     (let full = b\<lparr>albumArt := (if art \<noteq> [] then Some art else None)\<rparr>;
          sent = snd (dateNow e (world s2));
          stamp = fst (dateNow e sent)
      in (Returned (),
          \<lparr>this = \<lparr>lastSongData = Some (full\<lparr>timestamp := Some stamp\<rparr>),
                   currentSong = Some full,
                   lastSongKey = songKey b\<rparr>,
           io = \<lparr>world = snd (dateNow e sent),
                 trace = trace s2 @ [Published (payloadOf full (fst (dateNow e (world s2))))]\<rparr>\<rparr>))"
  using assms
  by (simp add: checkForChanges_def eff_defs Let_def sendSongToDeskThing_run split: prod.splits)

text \<open>What the detector does when the key differs: one resolution, one publication.\<close>

lemma changed_key_resolves_once:
  assumes poll: "getBasicSongInfo e (io n) = (Returned (Some b), s1)"
    and key: "songKey b \<noteq> lastSongKey (this n)"
  shows "\<exists>n' outs p. checkForChanges e n = (Returned (), n')
           \<and> trace (io n') = trace (io n) @ Resolving
                 # map (\<lambda>(t, out). Tried t out) (zip tiers outs) @ [Published p]
           \<and> map_option title (currentSong (this n')) = Some (title b)
           \<and> lastSongKey (this n') = songKey b"
proof -
  from getAlbumArt_run [of e s1] obtain art s2 outs where
    art: "getAlbumArt e s1 = (Returned art, s2)"
    and tr: "trace s2 = trace s1 @ Resolving # map (\<lambda>(t, out). Tried t out) (zip tiers outs)"
    by blast
  from getBasicSongInfo_run [of e "io n"] poll have "trace s1 = trace (io n)" by simp
  with tr checkForChanges_changed [OF poll key art] show ?thesis
    by (auto simp: Let_def)
qed















subsection \<open>Polls that find no song\<close>

lemma no_state_no_song:
  assumes "fst (execSync e PlayerStateScript (world s)) = Thrown"
  shows "fst (getBasicSongInfo e s) = Returned None"
proof (cases "execSync e PlayerStateScript (world s)")
  case (Pair r w')
  with assms have "r = Thrown" by simp
  with Pair show ?thesis
    by (simp add: getBasicSongInfo_def getPlayerState_def eff_defs)
qed

lemma stopped_no_song:
  assumes "fst (execSync e PlayerStateScript (world s)) = Returned out" and "trim out = ''stopped''"
  shows "fst (getBasicSongInfo e s) = Returned None"
proof (cases "execSync e PlayerStateScript (world s)")
  case (Pair r w')
  with assms(1) have "r = Returned out" by simp
  with Pair assms(2) show ?thesis
    by (simp add: getBasicSongInfo_def getPlayerState_def eff_defs)
qed

lemma neverThrows_getBasicSongInfo: "neverThrows (getBasicSongInfo e)"
  by (simp add: getBasicSongInfo_def neverThrows_tryCatch neverThrows_ret)

lemma always_empty: "(\<And>s. fst (m s) = Returned []) \<Longrightarrow> yields (\<lambda>r. r = []) m"
  unfolding yields_def by (metis fst_conv outcome.inject)

lemma returned_None:
  assumes "neverThrows m" and "yields (\<lambda>r. r = None) m"
  shows "fst (m s) = Returned None"
proof -
  from assms(1) obtain a s' where "m s = (Returned a, s')" unfolding neverThrows_def by blast
  with assms(2) show ?thesis unfolding yields_def by auto
qed

lemma no_title_no_song:
  assumes "\<And>s'. fst (getTrackTitle e s') = Returned []"
  shows "fst (getBasicSongInfo e s) = Returned None"
proof (rule returned_None [OF neverThrows_getBasicSongInfo])
  show "yields (\<lambda>r. r = None) (getBasicSongInfo e)"
    unfolding getBasicSongInfo_def
    apply (rule yields_tryCatch)
     apply (rule yields_step)
     apply (split if_split)
     apply (intro conjI impI)
      apply (simp add: yields_ret)
     apply (rule yields_andThen [OF always_empty [OF assms]])
     apply (intro yields_step)
     apply (simp add: yields_ret)
    apply (simp add: yields_ret)
    done
qed

lemma no_artist_no_song:
  assumes "\<And>s'. fst (getTrackArtist e s') = Returned []"
  shows "fst (getBasicSongInfo e s) = Returned None"
proof (rule returned_None [OF neverThrows_getBasicSongInfo])
  show "yields (\<lambda>r. r = None) (getBasicSongInfo e)"
    unfolding getBasicSongInfo_def
    apply (rule yields_tryCatch)
     apply (rule yields_step)
     apply (split if_split)
     apply (intro conjI impI)
      apply (simp add: yields_ret)
     apply (rule yields_step)
     apply (rule yields_andThen [OF always_empty [OF assms]])
     apply (intro yields_step)
     apply (simp add: yields_ret)
    apply (simp add: yields_ret)
    done
qed

text \<open>
  Claim C10. If the poll obtains no song, \<^verbatim>\<open>checkForChanges\<close> returns with the object
  unchanged (stored key, current song and \<^verbatim>\<open>lastSongData\<close>) and the trace unchanged
  (nothing resolved, nothing published), so the HTTP handler answers every request as
  before the step. The poll obtains no song when the player-state query throws, when
  it reports \<^verbatim>\<open>stopped\<close>, and when the title query or the artist query gives the empty
  string (which is also what they give when their shell call throws).
\<close>

theorem no_song_poll_is_noop:
  "(fst (getBasicSongInfo e (io n)) = Returned None \<longrightarrow>
      (\<exists>n'. checkForChanges e n = (Returned (), n')
         \<and> this n' = this n \<and> trace (io n') = trace (io n)
         \<and> handleRequest e (this n') req = handleRequest e (this n) req))
   \<and> (fst (execSync e PlayerStateScript (world s)) = Thrown
        \<longrightarrow> fst (getBasicSongInfo e s) = Returned None)
   \<and> ((\<exists>out. fst (execSync e PlayerStateScript (world s)) = Returned out \<and> trim out = ''stopped'')
        \<longrightarrow> fst (getBasicSongInfo e s) = Returned None)
   \<and> ((\<forall>s'. fst (getTrackTitle e s') = Returned []) \<or> (\<forall>s'. fst (getTrackArtist e s') = Returned [])
        \<longrightarrow> fst (getBasicSongInfo e s) = Returned None)"
proof (intro conjI impI)
  assume none: "fst (getBasicSongInfo e (io n)) = Returned None"
  from getBasicSongInfo_run [of e "io n"] obtain polled s1 where
    poll: "getBasicSongInfo e (io n) = (Returned polled, s1)" and tr: "trace s1 = trace (io n)"
    by blast
  with none have "polled = None" by simp
  with poll have "checkForChanges e n = (Returned (), n\<lparr>io := s1\<rparr>)"
    by (simp add: checkForChanges_None)
  with tr show "\<exists>n'. checkForChanges e n = (Returned (), n')
         \<and> this n' = this n \<and> trace (io n') = trace (io n)
         \<and> handleRequest e (this n') req = handleRequest e (this n) req"
    by simp
next
  assume "fst (execSync e PlayerStateScript (world s)) = Thrown"
  then show "fst (getBasicSongInfo e s) = Returned None" by (rule no_state_no_song)
next
  assume "\<exists>out. fst (execSync e PlayerStateScript (world s)) = Returned out \<and> trim out = ''stopped''"
  then show "fst (getBasicSongInfo e s) = Returned None" using stopped_no_song by blast
next
  assume "(\<forall>s'. fst (getTrackTitle e s') = Returned []) \<or> (\<forall>s'. fst (getTrackArtist e s') = Returned [])"
  then show "fst (getBasicSongInfo e s) = Returned None"
    using no_title_no_song [of e s] no_artist_no_song [of e s] by blast
qed

text \<open>After the first poll the player is stopped, or is gone altogether: the handler
  keeps serving the song of the first poll.\<close>

theorem no_song_poll_is_noop_witness:
  "(\<exists>n'. checkForChanges (playerEnv ''stopped'' [] [] [] []) playingNode = (Returned (), n')
      \<and> this n' = this playingNode \<and> trace (io n') = trace (io playingNode)
      \<and> body (handleRequest (playerEnv ''stopped'' [] [] [] []) (this n')
                \<lparr>reqMethod = Some ''GET'', reqUrl = Some ''/api/current-song''\<rparr>)
          = JsonBody (Some playingSong))
   \<and> (\<exists>n'. checkForChanges deadEnv playingNode = (Returned (), n')
      \<and> this n' = this playingNode \<and> trace (io n') = trace (io playingNode)
      \<and> body (handleRequest deadEnv (this n')
                \<lparr>reqMethod = Some ''GET'', reqUrl = Some ''/api/current-song''\<rparr>)
          = JsonBody (Some playingSong))
   \<and> (\<forall>s'. fst (getTrackTitle deadEnv s') = Returned [])"
proof -
  let ?req = "\<lparr>reqMethod = Some ''GET'', reqUrl = Some ''/api/current-song''\<rparr>"
  let ?stopped = "playerEnv ''stopped'' [] [] [] []"
  have served: "\<And>e :: nat env. urlPathname e ''/api/current-song'' = Some ''/api/current-song''
      \<Longrightarrow> body (handleRequest e (this playingNode) ?req) = JsonBody (Some playingSong)"
    by (simp add: handleRequest_def getCurrentSongData_def playingNode_def Let_def)
  have s1: "body (handleRequest ?stopped (this playingNode) ?req) = JsonBody (Some playingSong)"
    by (rule served) (simp add: playerEnv_def)
  have s2: "body (handleRequest deadEnv (this playingNode) ?req) = JsonBody (Some playingSong)"
    by (rule served) (simp add: deadEnv_def)
  have a: "\<exists>out. fst (execSync ?stopped PlayerStateScript (world (io playingNode))) = Returned out
             \<and> trim out = ''stopped''"
    by (simp add: playerEnv_def trim_def isWhiteSpace_def)
  have b: "fst (execSync deadEnv PlayerStateScript (world (io playingNode))) = Thrown"
    by (simp add: deadEnv_def)
  have c: "\<forall>s'. fst (getTrackTitle deadEnv s') = Returned []"
    by (simp add: getTrackTitle_def deadEnv_def eff_defs)
  from no_song_poll_is_noop [of ?stopped playingNode ?req "io playingNode"] a
  have 1: "\<exists>n'. checkForChanges ?stopped playingNode = (Returned (), n')
      \<and> this n' = this playingNode \<and> trace (io n') = trace (io playingNode)
      \<and> handleRequest ?stopped (this n') ?req = handleRequest ?stopped (this playingNode) ?req"
    by blast
  from no_song_poll_is_noop [of deadEnv playingNode ?req "io playingNode"] b
  have 2: "\<exists>n'. checkForChanges deadEnv playingNode = (Returned (), n')
      \<and> this n' = this playingNode \<and> trace (io n') = trace (io playingNode)
      \<and> handleRequest deadEnv (this n') ?req = handleRequest deadEnv (this playingNode) ?req"
    by blast
  from 1 2 s1 s2 c show ?thesis by (metis (no_types, lifting))
qed

subsection \<open>Two songs with one key\<close>

lemma first_poll_dash:
  "checkForChanges (playerEnv ''playing'' ''A-B'' ''C'' ''D'' ''10'') freshNode
     = (Returned (), dashNode)"
  by (simp add: checkForChanges_def getBasicSongInfo_def sendSongToDeskThing_def songKey_def
        dashNode_def dashSong_def payloadOf_def
        fixture_defs eff_defs query_defs strategy_defs Let_def)

lemma hasSongChanged_sees_the_change:
  "hasSongChanged (this dashNode)
     \<lparr>title = ''B-C'', artist = ''A'', album = ''D'', state = ''playing'',
      albumArt = None, duration = Some 200, position = Some 10, timestamp = None\<rparr>"
  by (simp add: dashNode_def dashSong_def hasSongChanged_def)

text \<open>
  Claim C3. When the key of the polled song differs from the stored key, the step resolves
  the artwork once and publishes once (\<open>changed_key_resolves_once\<close>). The claim asks for
  this whenever the triple differs, and that fails: the key joins artist, title and album
  with dashes, so the track "C" by "A-B" and the track "B-C" by "A", both on the album
  "D", have the key \<^verbatim>\<open>A-B-C-D\<close>. After the first has been polled in a fresh process, a poll
  that finds the second resolves nothing, publishes nothing and leaves the first as the
  current song, although the method \<^verbatim>\<open>hasSongChanged\<close> of the same class, which
  compares the fields, reports a change (\<open>hasSongChanged_sees_the_change\<close>).
\<close>

theorem key_collision_hides_song_change:
  "checkForChanges (playerEnv ''playing'' ''A-B'' ''C'' ''D'' ''10'') freshNode
     = (Returned (), dashNode)
   \<and> getBasicSongInfo (playerEnv ''playing'' ''A'' ''B-C'' ''D'' ''10'') (io dashNode)
     = (Returned (Some \<lparr>title = ''B-C'', artist = ''A'', album = ''D'', state = ''playing'',
                         albumArt = None, duration = Some 200, position = Some 10,
                         timestamp = None\<rparr>),
        \<lparr>world = 27, trace = trace (io dashNode)\<rparr>)
   \<and> checkForChanges (playerEnv ''playing'' ''A'' ''B-C'' ''D'' ''10'') dashNode
     = (Returned (), dashNode\<lparr>io := \<lparr>world = 27, trace = trace (io dashNode)\<rparr>\<rparr>)
   \<and> map_option title (currentSong (this dashNode)) = Some ''C''
   \<and> map_option artist (currentSong (this dashNode)) = Some ''A-B''
   \<and> length (filter (\<lambda>ev. ev = Resolving) (trace (io dashNode))) = 1"
proof -
  let ?e = "playerEnv ''playing'' ''A'' ''B-C'' ''D'' ''10''"
  let ?b = "\<lparr>title = ''B-C'', artist = ''A'', album = ''D'', state = ''playing'',
             albumArt = None, duration = Some 200, position = Some 10, timestamp = None\<rparr>"
  have poll: "getBasicSongInfo ?e (io dashNode)
      = (Returned (Some ?b), \<lparr>world = 27, trace = trace (io dashNode)\<rparr>)"
    by (simp add: getBasicSongInfo_def dashNode_def fixture_defs eff_defs query_defs Let_def)
  have cur: "currentSong (this dashNode) = Some dashSong"
    and key: "lastSongKey (this dashNode) = songKey ?b"
    by (simp_all add: dashNode_def songKey_def)
  have same: "state ?b = state dashSong"
    "\<bar>orZero (position dashSong) - orZero (position ?b)\<bar> \<le> 1"
    by (simp_all add: dashSong_def)
  have step: "checkForChanges ?e dashNode
      = (Returned (), dashNode\<lparr>io := \<lparr>world = 27, trace = trace (io dashNode)\<rparr>\<rparr>)"
    by (rule checkForChanges_same [OF poll cur key same])
  have rest: "map_option title (currentSong (this dashNode)) = Some ''C''
      \<and> map_option artist (currentSong (this dashNode)) = Some ''A-B''
      \<and> length (filter (\<lambda>ev. ev = Resolving) (trace (io dashNode))) = 1"
    by (simp add: dashNode_def dashSong_def)
  from first_poll_dash poll step rest show ?thesis by blast
qed

subsection \<open>The HTTP answers and the published payload\<close>




subsection \<open>The progress bar of the client\<close>

lemmas client_defs = updateProgress_def intervalTick_def simulateProgress_def simulating_def
  songToUse_def truthy_def progressBarWidth_def

text \<open>
  Claim C8. A client whose current song has position 30, duration 200 and state
  \<^verbatim>\<open>playing\<close> runs the progress effect at time \<open>t0\<close> (milliseconds); a timer tick 5000 ms
  later shows a bar of 17.5 percent. The width of the bar is at most 100 percent in every
  client state, and a tick never takes the stored progress from at most 100 to more than
  100. When the song in use is not in state \<^verbatim>\<open>playing\<close> (or there is none), a tick changes
  nothing.
\<close>

theorem progress_simulation:
  "(cl_currentSong c = Some s \<and> position s = Some 30 \<and> duration s = Some 200
      \<and> state s = ''playing''
      \<longrightarrow> progressBarWidth (intervalTick (t0 + 5000) (updateProgress t0 c)) = 17.5)
   \<and> progressBarWidth c \<le> 100
   \<and> (progress c \<le> 100 \<longrightarrow> progress (intervalTick now c) \<le> 100)
   \<and> ((\<forall>u. songToUse c = Some u \<longrightarrow> state u \<noteq> ''playing'') \<longrightarrow> intervalTick now c = c)"
proof (intro conjI impI)
  assume "cl_currentSong c = Some s \<and> position s = Some 30 \<and> duration s = Some 200
      \<and> state s = ''playing''"
  then show "progressBarWidth (intervalTick (t0 + 5000) (updateProgress t0 c)) = 17.5"
    by (simp add: client_defs)
next
  show "progressBarWidth c \<le> 100" by (simp add: progressBarWidth_def)
next
  assume "progress c \<le> 100"
  then show "progress (intervalTick now c) \<le> 100"
    by (simp add: intervalTick_def simulateProgress_def Let_def split: option.splits)
next
  assume "\<forall>u. songToUse c = Some u \<longrightarrow> state u \<noteq> ''playing''"
  then show "intervalTick now c = c"
    by (simp add: intervalTick_def simulating_def split: option.splits)
qed

text \<open>The example of the specification, and the same song paused.\<close>

theorem progress_simulation_witness:
  "progressBarWidth (intervalTick 65000 (updateProgress 60000 (clientWith
      (playingSong\<lparr>position := Some 30\<rparr>)))) = 17.5
   \<and> intervalTick 65000 (updateProgress 60000 (clientWith
        (playingSong\<lparr>position := Some 30, state := ''paused''\<rparr>)))
     = updateProgress 60000 (clientWith (playingSong\<lparr>position := Some 30, state := ''paused''\<rparr>))
   \<and> progressBarWidth (updateProgress 60000 (clientWith
        (playingSong\<lparr>position := Some 30, state := ''paused''\<rparr>))) = 15"
proof -
  let ?s = "playingSong\<lparr>position := Some 30\<rparr>"
  let ?p = "playingSong\<lparr>position := Some 30, state := ''paused''\<rparr>"
  have playing: "cl_currentSong (clientWith ?s) = Some ?s \<and> position ?s = Some 30
      \<and> duration ?s = Some 200 \<and> state ?s = ''playing''"
    by (simp add: clientWith_def playingSong_def)
  have a: "progressBarWidth (intervalTick 65000 (updateProgress 60000 (clientWith ?s))) = 17.5"
    using progress_simulation [of "clientWith ?s" ?s 60000, THEN conjunct1] playing by simp
  have paused: "\<forall>u. songToUse (updateProgress 60000 (clientWith ?p)) = Some u
      \<longrightarrow> state u \<noteq> ''playing''"
    by (simp add: client_defs clientWith_def playingSong_def)
  have b: "intervalTick 65000 (updateProgress 60000 (clientWith ?p))
      = updateProgress 60000 (clientWith ?p)"
    using progress_simulation [of "updateProgress 60000 (clientWith ?p)" _ _ 65000,
            THEN conjunct2, THEN conjunct2, THEN conjunct2] paused
    by (rule mp)
  have c: "progressBarWidth (updateProgress 60000 (clientWith ?p)) = 15"
    by (simp add: client_defs clientWith_def playingSong_def)
  from a b c show ?thesis by blast
qed

subsection \<open>The image that the Last.fm strategy takes\<close>

lemma largeImage_large:
  "find (\<lambda>img. img_size img = ''large'') images = Some img \<Longrightarrow> largeImage images = Some img"
  by (simp add: largeImage_def)

lemma largeImage_medium:
  "find (\<lambda>img. img_size img = ''large'') images = None \<Longrightarrow>
   find (\<lambda>img. img_size img = ''medium'') images = Some img \<Longrightarrow> largeImage images = Some img"
  by (simp add: largeImage_def)

lemma largeImage_last:
  "find (\<lambda>img. img_size img = ''large'') images = None \<Longrightarrow>
   find (\<lambda>img. img_size img = ''medium'') images = None \<Longrightarrow> images \<noteq> [] \<Longrightarrow>
   largeImage images = Some (last images)"
  by (simp add: largeImage_def last_conv_nth)

text \<open>
  Claim C6. The code takes the first image of size \<^verbatim>\<open>large\<close>, else the first of size
  \<^verbatim>\<open>medium\<close>, else the last element (\<open>largeImage_large\<close>, \<open>largeImage_medium\<close>,
  \<open>largeImage_last\<close>). That is not the largest one available: on the list that Last.fm
  sends, ranked small, medium, large, extralarge, mega, it takes the third entry
  \<^verbatim>\<open>large\<close> and not the last entry \<^verbatim>\<open>mega\<close>, against the comment "Get the largest available
  image" in the source.
\<close>

theorem lastfm_takes_large_not_largest:
  "map img_size lastfmImages = [''small'', ''medium'', ''large'', ''extralarge'', ''mega'']
   \<and> largeImage lastfmImages = Some \<lparr>img_size = ''large'', img_text = ''https://img/174s.png''\<rparr>
   \<and> last lastfmImages = \<lparr>img_size = ''mega'', img_text = ''https://img/mega.png''\<rparr>
   \<and> largeImage lastfmImages \<noteq> Some (last lastfmImages)"
  by (simp add: largeImage_def lastfmImages_def)

end
